theory Spec2Isabelle
  imports Main "HOL-Library.Word"
begin

unbundle bit_operations_syntax

section \<open>Python values\<close>

text \<open>
  Tool-call arguments, webhook payloads and tool results are Python values built from
  \<^verbatim>\<open>None\<close>, booleans, numbers, strings, lists and dicts (what \<^verbatim>\<open>json.loads\<close> and
  the HTTP layer produce). A Python \<^verbatim>\<open>str\<close> is modelled as a \<^typ>\<open>string\<close> whose
  characters stand for the code points of the same number, so the model covers the
  code points below 256. A float is carried as the text \<^verbatim>\<open>str()\<close> prints for it
  (\<^verbatim>\<open>0.0\<close>, \<^verbatim>\<open>1.5\<close>, \<^verbatim>\<open>nan\<close>). A dict is an association list in insertion order with
  distinct keys; lookups read the first entry of a key.
\<close>

datatype pyval =
    PNone
  | PBool bool
  | PInt int
  | PFloat string
  | PStr string
  | PList "pyval list"
  | PDict "(string \<times> pyval) list"

text \<open>Truth value of a Python value, as \<^verbatim>\<open>not v\<close> and \<^verbatim>\<open>a or b\<close> test it.\<close>

fun truthy :: "pyval \<Rightarrow> bool" where
  "truthy PNone = False"
| "truthy (PBool b) = b"
| "truthy (PInt i) = (i \<noteq> 0)"
| "truthy (PFloat f) = (f \<noteq> ''0.0'' \<and> f \<noteq> ''-0.0'')"
| "truthy (PStr s) = (s \<noteq> [])"
| "truthy (PList xs) = (xs \<noteq> [])"
| "truthy (PDict kvs) = (kvs \<noteq> [])"

text \<open>\<^verbatim>\<open>type(v).__name__\<close>\<close>

fun type_name :: "pyval \<Rightarrow> string" where
  "type_name PNone = ''NoneType''"
| "type_name (PBool b) = ''bool''"
| "type_name (PInt i) = ''int''"
| "type_name (PFloat f) = ''float''"
| "type_name (PStr s) = ''str''"
| "type_name (PList xs) = ''list''"
| "type_name (PDict kvs) = ''dict''"

text \<open>\<^verbatim>\<open>d.get(k)\<close> and \<^verbatim>\<open>d.get(k, default)\<close> on a dict.\<close>

definition dict_get :: "(string \<times> pyval) list \<Rightarrow> string \<Rightarrow> pyval" where
  "dict_get d k = (case map_of d k of None \<Rightarrow> PNone | Some v \<Rightarrow> v)"

definition dict_get_default :: "(string \<times> pyval) list \<Rightarrow> string \<Rightarrow> pyval \<Rightarrow> pyval" where
  "dict_get_default d k dflt = (case map_of d k of None \<Rightarrow> dflt | Some v \<Rightarrow> v)"

text \<open>The apostrophe, which a string literal cannot hold.\<close>

definition apostrophe :: string where
  "apostrophe = [CHR 0x27]"

text \<open>Decimal text of an integer, as \<^verbatim>\<open>str(n)\<close> and an f-string print it.\<close>

function str_nat :: "nat \<Rightarrow> string" where
  "str_nat n =
     (if n < 10 then [''0123456789'' ! n]
      else str_nat (n div 10) @ [''0123456789'' ! (n mod 10)])"
  by pat_completeness auto
termination
  by (relation "measure id") auto

declare str_nat.simps [simp del]

definition str_int :: "int \<Rightarrow> string" where
  "str_int i = (if i < 0 then CHR ''-'' # str_nat (nat (- i)) else str_nat (nat i))"

section \<open>Exceptions\<close>

text \<open>
  A raised exception is a value: its class and its message. \<^verbatim>\<open>str(e)\<close> is the message
  (for a \<^verbatim>\<open>KeyError\<close> the message is the text of the missing key).
\<close>

datatype exn =
    ValueError string
  | TypeError string
  | KeyError string
  | IndexError string
  | AttributeError string
  | JSONDecodeError string
  | TransportError string
  | RecursionError string
  | Exception string

fun exn_str :: "exn \<Rightarrow> string" where
  "exn_str (ValueError m) = m"
| "exn_str (TypeError m) = m"
| "exn_str (KeyError m) = m"
| "exn_str (IndexError m) = m"
| "exn_str (AttributeError m) = m"
| "exn_str (JSONDecodeError m) = m"
| "exn_str (TransportError m) = m"
| "exn_str (RecursionError m) = m"
| "exn_str (Exception m) = m"

section \<open>The canonical intent\<close>

text \<open>
  \<^verbatim>\<open>CalendarEventIntent\<close> of \<^verbatim>\<open>intent_service.py\<close>, with the field types its
  validation leaves: strings, an optional description, the list of attendee addresses
  and the optional tracking identifiers.
\<close>

record CalendarEventIntent =
  action :: string
  title :: string
  description :: "string option"
  start_time :: string
  end_time :: string
  timezone :: string
  attendees :: "string list"
  send_email :: bool
  intent_id :: "string option"
  call_id :: "string option"
  org_id :: "string option"

definition opt_str :: "string option \<Rightarrow> pyval" where
  "opt_str x = (case x of None \<Rightarrow> PNone | Some s \<Rightarrow> PStr s)"

text \<open>
  \<^verbatim>\<open>to_zapier_payload\<close>. \<^verbatim>\<open>self.attendees[0]\<close> raises on an empty list; \<open>now\<close> is
  \<^verbatim>\<open>datetime.utcnow().isoformat()\<close>.
\<close>

definition to_zapier_payload :: "string \<Rightarrow> CalendarEventIntent \<Rightarrow> exn + pyval" where
  "to_zapier_payload now i =
     (case attendees i of
        [] \<Rightarrow> Inl (IndexError ''list index out of range'')
      | a # rest \<Rightarrow>
          Inr (PDict
            [(''appointment_id'', opt_str (intent_id i)),
             (''title'', PStr (title i)),
             (''description'',
                PStr (case description i of None \<Rightarrow> [] | Some d \<Rightarrow> d)),
             (''start_time'', PStr (start_time i)),
             (''end_time'', PStr (end_time i)),
             (''timezone'', PStr (timezone i)),
             (''attendee_email'', PStr a),
             (''attendee_name'', PStr []),
             (''additional_attendees'', PList (map PStr rest)),
             (''send_email'', PBool (send_email i)),
             (''created_at'', PStr now)]))"

section \<open>Execution service\<close>

datatype ExecutionStatus = PENDING | EXECUTING | EXECUTED | FAILED | DUPLICATE

text \<open>
  \<^verbatim>\<open>ExecutionResult\<close>. Its identity field is \<open>result_id\<close> here, since the intent's
  field already has the name \<open>intent_id\<close>.
\<close>

record ExecutionResult =
  success :: bool
  status :: ExecutionStatus
  result_id :: string
  zapier_response :: pyval
  error :: "string option"
  is_duplicate :: bool
  executed_at :: "string option"

text \<open>
  The constructor: \<^verbatim>\<open>zapier_response or {}\<close>, and a completion time only on success.
\<close>

definition ExecutionResult_init ::
  "string \<Rightarrow> bool \<Rightarrow> ExecutionStatus \<Rightarrow> string \<Rightarrow> pyval \<Rightarrow> string option \<Rightarrow> bool
     \<Rightarrow> ExecutionResult" where
  "ExecutionResult_init now ok st iid resp err dup =
     \<lparr>success = ok, status = st, result_id = iid,
      zapier_response = (if truthy resp then resp else PDict []),
      error = err, is_duplicate = dup,
      executed_at = (if ok then Some now else None)\<rparr>"

text \<open>
  What the webhook collaborator answers: an HTTP response, whose \<^verbatim>\<open>json()\<close> either
  decodes the body or raises.
\<close>

record http_response =
  status_code :: int
  body_text :: string
  body_json :: "exn + pyval"

text \<open>
  The world outside the service during one call: the clock reading, the answer of the
  webhook endpoint to the k-th request ever sent (a response, or the exception the HTTP
  client raises: timeout, connection failure), and whether the storage collaborator
  stores the appointment row it is given.
\<close>

record env =
  utcnow :: string
  http_post :: "nat \<Rightarrow> string \<Rightarrow> pyval \<Rightarrow> exn + http_response"
  db_ok :: bool

text \<open>
  The service object: the \<^verbatim>\<open>_executions\<close> dict, the keys of the \<^verbatim>\<open>_locks\<close> dict (a lock
  is free whenever no call is running, since \<^verbatim>\<open>async with\<close> releases it on every exit),
  the configured webhook URL, and the requests sent to the webhook so far, in order
  (what a mock collaborator records).
\<close>

record ExecutionService =
  executions :: "string \<rightharpoonup> ExecutionResult"
  locks :: "string set"
  webhook_url :: string
  posted :: "pyval list"

definition ExecutionService_init :: "string \<Rightarrow> ExecutionService" where
  "ExecutionService_init url =
     \<lparr>executions = Map.empty, locks = {}, webhook_url = url, posted = []\<rparr>"

definition get_lock :: "string \<Rightarrow> ExecutionService \<Rightarrow> ExecutionService" where
  "get_lock iid s = (if iid \<notin> locks s then s\<lparr>locks := insert iid (locks s)\<rparr> else s)"

text \<open>\<^verbatim>\<open>intent.intent_id or "unknown"\<close>\<close>

definition intent_key :: "CalendarEventIntent \<Rightarrow> string" where
  "intent_key i =
     (case intent_id i of None \<Rightarrow> ''unknown'' | Some k \<Rightarrow> if k = [] then ''unknown'' else k)"

text \<open>
  \<^verbatim>\<open>_call_zapier_webhook\<close>: raises when the URL is not configured, on a transport
  failure and on a status other than 200, 201, 202; a success body that is not JSON is
  wrapped.
\<close>

definition call_zapier_webhook ::
  "env \<Rightarrow> CalendarEventIntent \<Rightarrow> ExecutionService \<Rightarrow> (exn + ExecutionResult) \<times> ExecutionService" where
  "call_zapier_webhook e i s =
     (if webhook_url s = [] then (Inl (ValueError ''ZAPIER_WEBHOOK_URL not configured''), s)
      else case to_zapier_payload (utcnow e) i of
        Inl x \<Rightarrow> (Inl x, s)
      | Inr payload \<Rightarrow>
          (let s' = s\<lparr>posted := posted s @ [payload]\<rparr> in
           case http_post e (length (posted s)) (webhook_url s) payload of
             Inl x \<Rightarrow> (Inl x, s')
           | Inr response \<Rightarrow>
               if status_code response \<notin> {200, 201, 202}
               then (Inl (Exception (''Zapier returned '' @ str_int (status_code response)
                             @ '': '' @ body_text response)), s')
               else (case body_json response of
                       Inl (JSONDecodeError m) \<Rightarrow>
                         (Inr (ExecutionResult_init (utcnow e) True EXECUTED (intent_key i)
                                 (PDict [(''status'', PStr ''accepted''),
                                         (''raw'', PStr (body_text response))])
                                 None False), s')
                     | Inl x \<Rightarrow> (Inl x, s')
                     | Inr response_json \<Rightarrow>
                         (Inr (ExecutionResult_init (utcnow e) True EXECUTED (intent_key i)
                                 response_json None False), s'))))"

text \<open>STEP 2 of \<^verbatim>\<open>execute_calendar_intent\<close>: the record written before the call.\<close>

definition mark_executing :: "env \<Rightarrow> string \<Rightarrow> ExecutionService \<Rightarrow> ExecutionService" where
  "mark_executing e iid s =
     s\<lparr>executions := (executions s)(iid \<mapsto>
          ExecutionResult_init (utcnow e) False EXECUTING iid (PDict []) None False)\<rparr>"

text \<open>STEPS 3 to 5: the webhook call, and the record written after it.\<close>

definition finish_execution ::
  "env \<Rightarrow> CalendarEventIntent \<Rightarrow> ExecutionService \<Rightarrow> ExecutionResult \<times> ExecutionService" where
  "finish_execution e i s =
     (let iid = intent_key i in
      case call_zapier_webhook e i s of
        (Inr result, s') \<Rightarrow> (result, s'\<lparr>executions := (executions s')(iid \<mapsto> result)\<rparr>)
      | (Inl x, s') \<Rightarrow>
          (let result = ExecutionResult_init (utcnow e) False FAILED iid (PDict []) (Some (exn_str x)) False
           in (result, s'\<lparr>executions := (executions s')(iid \<mapsto> result)\<rparr>)))"

text \<open>
  \<^verbatim>\<open>execute_calendar_intent\<close>, run to completion: the lock is taken, STEP 1 looks for a
  record at \<^verbatim>\<open>EXECUTED\<close> or \<^verbatim>\<open>EXECUTING\<close>, and otherwise the intent is marked and sent.
\<close>

definition execute_calendar_intent ::
  "env \<Rightarrow> CalendarEventIntent \<Rightarrow> ExecutionService \<Rightarrow> ExecutionResult \<times> ExecutionService" where
  "execute_calendar_intent e i s0 =
     (let iid = intent_key i; s = get_lock iid s0 in
      case executions s iid of
        Some existing \<Rightarrow>
          if status existing = EXECUTED \<or> status existing = EXECUTING
          then (ExecutionResult_init (utcnow e) True DUPLICATE iid (PDict []) None True, s)
          else finish_execution e i (mark_executing e iid s)
      | None \<Rightarrow> finish_execution e i (mark_executing e iid s))"

definition get_execution_status :: "ExecutionService \<Rightarrow> string \<Rightarrow> ExecutionResult option" where
  "get_execution_status s iid = executions s iid"

definition was_executed :: "ExecutionService \<Rightarrow> string \<Rightarrow> bool" where
  "was_executed s iid =
     (case executions s iid of
        None \<Rightarrow> False
      | Some result \<Rightarrow> status result = EXECUTED \<or> status result = DUPLICATE)"

definition reset_execution :: "string \<Rightarrow> ExecutionService \<Rightarrow> bool \<times> ExecutionService" where
  "reset_execution iid s =
     (if iid \<in> dom (executions s)
      then (True, s\<lparr>executions := (executions s)(iid := None),
                    locks := (if iid \<in> locks s then locks s - {iid} else locks s)\<rparr>)
      else (False, s))"

text \<open>The same intent submitted once per clock reading and world of the list, in order.\<close>

fun submit_all ::
  "env list \<Rightarrow> CalendarEventIntent \<Rightarrow> ExecutionService \<Rightarrow> ExecutionResult list \<times> ExecutionService" where
  "submit_all [] i s = ([], s)"
| "submit_all (e # es) i s =
     (case execute_calendar_intent e i s of
        (r, s') \<Rightarrow> (case submit_all es i s' of (rs, s'') \<Rightarrow> (r # rs, s'')))"

text \<open>
  The states the service passes through, from its construction: a lock is created, an
  intent that is no duplicate is marked (the state other calls see while the webhook is
  awaited), a webhook call returns or raises and its record is written, a record is
  purged. The steps of different calls interleave in any order.
\<close>

inductive reachable :: "ExecutionService \<Rightarrow> bool" where
  init: "reachable (ExecutionService_init url)"
| lock: "reachable s \<Longrightarrow> reachable (get_lock iid s)"
| mark: "reachable s \<Longrightarrow>
         \<not> (\<exists>r. executions s iid = Some r \<and> (status r = EXECUTED \<or> status r = EXECUTING)) \<Longrightarrow>
         reachable (mark_executing e iid s)"
| finish: "reachable s \<Longrightarrow> reachable (snd (finish_execution e i s))"
| reset: "reachable s \<Longrightarrow> reachable (snd (reset_execution iid s))"

section \<open>Python strings\<close>

text \<open>
  \<^verbatim>\<open>str.isspace\<close> on the code points below 256: the ASCII white space, the separators
  28 to 31, NEL and the no-break space.
\<close>

definition is_space :: "char \<Rightarrow> bool" where
  "is_space c \<longleftrightarrow>
     c \<in> set [CHR 0x09, CHR 0x0A, CHR 0x0B, CHR 0x0C, CHR 0x0D, CHR 0x1C, CHR 0x1D, CHR 0x1E,
               CHR 0x1F, CHR 0x20, CHR 0x85, CHR 0xA0]"

definition strip :: "string \<Rightarrow> string" where
  "strip s = rev (dropWhile is_space (rev (dropWhile is_space s)))"

text \<open>\<^verbatim>\<open>str.lower\<close> on the code points below 256: the ASCII and the Latin-1 capitals.\<close>

definition upper_letters :: string where
  "upper_letters = ''ABCDEFGHIJKLMNOPQRSTUVWXYZ'' @
     [CHR 0xC0, CHR 0xC1, CHR 0xC2, CHR 0xC3, CHR 0xC4, CHR 0xC5, CHR 0xC6, CHR 0xC7,
      CHR 0xC8, CHR 0xC9, CHR 0xCA, CHR 0xCB, CHR 0xCC, CHR 0xCD, CHR 0xCE, CHR 0xCF,
      CHR 0xD0, CHR 0xD1, CHR 0xD2, CHR 0xD3, CHR 0xD4, CHR 0xD5, CHR 0xD6,
      CHR 0xD8, CHR 0xD9, CHR 0xDA, CHR 0xDB, CHR 0xDC, CHR 0xDD, CHR 0xDE]"

definition lower_letters :: string where
  "lower_letters = ''abcdefghijklmnopqrstuvwxyz'' @
     [CHR 0xE0, CHR 0xE1, CHR 0xE2, CHR 0xE3, CHR 0xE4, CHR 0xE5, CHR 0xE6, CHR 0xE7,
      CHR 0xE8, CHR 0xE9, CHR 0xEA, CHR 0xEB, CHR 0xEC, CHR 0xED, CHR 0xEE, CHR 0xEF,
      CHR 0xF0, CHR 0xF1, CHR 0xF2, CHR 0xF3, CHR 0xF4, CHR 0xF5, CHR 0xF6,
      CHR 0xF8, CHR 0xF9, CHR 0xFA, CHR 0xFB, CHR 0xFC, CHR 0xFD, CHR 0xFE]"

definition lower_char :: "char \<Rightarrow> char" where
  "lower_char c = (case map_of (zip upper_letters lower_letters) c of None \<Rightarrow> c | Some l \<Rightarrow> l)"

definition lower :: "string \<Rightarrow> string" where
  "lower s = map lower_char s"

text \<open>\<^verbatim>\<open>s.replace(c, r)\<close> for a pattern of one character.\<close>

definition replace_char :: "char \<Rightarrow> string \<Rightarrow> string \<Rightarrow> string" where
  "replace_char c r s = concat (map (\<lambda>x. if x = c then r else [x]) s)"

text \<open>\<^verbatim>\<open>sep.join(xs)\<close>\<close>

fun join :: "string \<Rightarrow> string list \<Rightarrow> string" where
  "join sep [] = []"
| "join sep [x] = x"
| "join sep (x # y # ys) = x @ sep @ join sep (y # ys)"

text \<open>\<^verbatim>\<open>s.split(c)[0]\<close>: the text before the first separator.\<close>

definition split_first :: "char \<Rightarrow> string \<Rightarrow> string" where
  "split_first c s = takeWhile (\<lambda>x. x \<noteq> c) s"

section \<open>The email pattern\<close>

text \<open>
  The patterns \<^verbatim>\<open>re.match\<close> is given here are sequences of a literal character, a
  character class repeated at least n times (\<^verbatim>\<open>+\<close> is n = 1, \<^verbatim>\<open>{2,}\<close> is n = 2) and
  the end anchor; \<^verbatim>\<open>$\<close> matches at the end and before a newline that ends the string.
\<close>

datatype atom = Lit char | Rep nat "char \<Rightarrow> bool" | Dollar

fun re_match :: "atom list \<Rightarrow> string \<Rightarrow> bool" where
  "re_match [] s = True"
| "re_match (Lit c # r) s = (case s of [] \<Rightarrow> False | x # xs \<Rightarrow> x = c \<and> re_match r xs)"
| "re_match (Rep n cls # r) s =
     list_ex (\<lambda>k. re_match r (drop k s)) [n..<Suc (length (takeWhile cls s))]"
| "re_match (Dollar # r) s = ((s = [] \<or> s = [CHR 0x0A]) \<and> re_match r s)"

definition alpha :: string where
  "alpha = ''abcdefghijklmnopqrstuvwxyzABCDEFGHIJKLMNOPQRSTUVWXYZ''"

definition email_regex :: "atom list" where
  "email_regex =
     [Rep 1 (\<lambda>c. c \<in> set (alpha @ ''0123456789._%+-'')), Lit CHR ''@'',
      Rep 1 (\<lambda>c. c \<in> set (alpha @ ''0123456789.-'')), Lit CHR ''.'',
      Rep 2 (\<lambda>c. c \<in> set alpha), Dollar]"

section \<open>ISO timestamps\<close>

text \<open>
  \<^verbatim>\<open>datetime.fromisoformat\<close> belongs to the Python library, and the strings it accepts
  depend on the version of the interpreter. The validator below therefore takes the
  parser as a parameter, as the handler takes the JSON decoder: a function from the
  string to the \<^verbatim>\<open>datetime\<close>, where \<open>None\<close> stands for the \<^verbatim>\<open>ValueError\<close> the library
  raises. Every property of validation below is proved for every parser.

  \<open>fromisoformat_core\<close> is one parser, used where an example is computed. It accepts
  the format documented from Python 3.7 on,
  \<^verbatim>\<open>YYYY-MM-DD[*HH[:MM[:SS[.fff[fff]]]][+HH:MM[:SS[.ffffff]]]]\<close> with any one character for
  \<^verbatim>\<open>*\<close>, with the range checks of the \<^verbatim>\<open>datetime\<close> and \<^verbatim>\<open>timezone\<close> constructors. From
  Python 3.11 on the library accepts further forms (the basic format with no
  separators, fractions of other lengths, offsets with no colon), so
  \<open>fromisoformat_core\<close> stands for the library only on the strings it accepts and on
  strings that are no timestamp at all; the examples use no others.
\<close>

record datetime =
  year :: nat
  month :: nat
  day :: nat
  hour :: nat
  minute :: nat
  second :: nat
  microsecond :: nat
  utcoffset :: "int option"

definition digit :: "char \<Rightarrow> nat option" where
  "digit c = map_of (zip ''0123456789'' [0, 1, 2, 3, 4, 5, 6, 7, 8, 9]) c"

fun number_from :: "nat \<Rightarrow> string \<Rightarrow> nat option" where
  "number_from a [] = Some a"
| "number_from a (c # cs) =
     (case digit c of None \<Rightarrow> None | Some d \<Rightarrow> number_from (10 * a + d) cs)"

definition number :: "string \<Rightarrow> nat option" where
  "number s = (if s = [] then None else number_from 0 s)"

definition two_digits :: "string \<Rightarrow> (nat \<times> string) option" where
  "two_digits s =
     (case s of
        a # b # rest \<Rightarrow>
          (case (digit a, digit b) of
             (Some x, Some y) \<Rightarrow> Some (10 * x + y, rest)
           | _ \<Rightarrow> None)
      | _ \<Rightarrow> None)"

definition parse_fraction :: "string \<Rightarrow> nat option" where
  "parse_fraction r =
     (case r of
        [] \<Rightarrow> Some 0
      | c # f \<Rightarrow>
          if c \<noteq> CHR ''.'' then None
          else if length f = 3 then map_option (\<lambda>n. n * 1000) (number f)
          else if length f = 6 then number f
          else None)"

definition parse_hh_mm_ss_ff :: "string \<Rightarrow> (nat \<times> nat \<times> nat \<times> nat) option" where
  "parse_hh_mm_ss_ff s =
     (case two_digits s of
        None \<Rightarrow> None
      | Some (h, r1) \<Rightarrow>
          (case r1 of
             [] \<Rightarrow> Some (h, 0, 0, 0)
           | c1 # s1 \<Rightarrow>
               if c1 \<noteq> CHR '':'' then None
               else (case two_digits s1 of
                  None \<Rightarrow> None
                | Some (m, r2) \<Rightarrow>
                    (case r2 of
                       [] \<Rightarrow> Some (h, m, 0, 0)
                     | c2 # s2 \<Rightarrow>
                         if c2 \<noteq> CHR '':'' then None
                         else (case two_digits s2 of
                            None \<Rightarrow> None
                          | Some (sec, r3) \<Rightarrow>
                              map_option (\<lambda>us. (h, m, sec, us)) (parse_fraction r3))))))"

definition is_sign :: "char \<Rightarrow> bool" where
  "is_sign c \<longleftrightarrow> c = CHR ''+'' \<or> c = CHR ''-''"

definition parse_isoformat_time ::
  "string \<Rightarrow> ((nat \<times> nat \<times> nat \<times> nat) \<times> int option) option" where
  "parse_isoformat_time t =
     (case parse_hh_mm_ss_ff (takeWhile (\<lambda>c. \<not> is_sign c) t) of
        None \<Rightarrow> None
      | Some tc \<Rightarrow>
          (case dropWhile (\<lambda>c. \<not> is_sign c) t of
             [] \<Rightarrow> Some (tc, None)
           | sg # tz \<Rightarrow>
               if length tz \<notin> {5, 8, 15} then None
               else (case parse_hh_mm_ss_ff tz of
                  None \<Rightarrow> None
                | Some (h, m, s, us) \<Rightarrow>
                    (let off = ((int h * 60 + int m) * 60 + int s) * 1000000 + int us in
                     if off < 86400000000
                     then Some (tc, Some (if sg = CHR ''-'' then - off else off))
                     else None))))"

definition parse_isoformat_date :: "string \<Rightarrow> (nat \<times> nat \<times> nat) option" where
  "parse_isoformat_date d =
     (case (number (take 4 d), number (take 2 (drop 5 d)), number (take 2 (drop 8 d))) of
        (Some y, Some m, Some dd) \<Rightarrow>
          if length d = 10 \<and> d ! 4 = CHR ''-'' \<and> d ! 7 = CHR ''-'' then Some (y, m, dd) else None
      | _ \<Rightarrow> None)"

definition days_in_month :: "nat \<Rightarrow> nat \<Rightarrow> nat" where
  "days_in_month y m =
     (if m = 2 then (if y mod 4 = 0 \<and> (y mod 100 \<noteq> 0 \<or> y mod 400 = 0) then 29 else 28)
      else if m \<in> {4, 6, 9, 11} then 30 else 31)"

definition new_datetime ::
  "nat \<times> nat \<times> nat \<Rightarrow> nat \<times> nat \<times> nat \<times> nat \<Rightarrow> int option \<Rightarrow> datetime option" where
  "new_datetime d t tz =
     (case (d, t) of
        ((y, mo, dd), (h, mi, s, us)) \<Rightarrow>
          if 1 \<le> y \<and> y \<le> 9999 \<and> 1 \<le> mo \<and> mo \<le> 12 \<and> 1 \<le> dd \<and> dd \<le> days_in_month y mo
             \<and> h \<le> 23 \<and> mi \<le> 59 \<and> s \<le> 59 \<and> us \<le> 999999
          then Some \<lparr>year = y, month = mo, day = dd, hour = h, minute = mi, second = s,
                     microsecond = us, utcoffset = tz\<rparr>
          else None)"

definition fromisoformat_core :: "string \<Rightarrow> datetime option" where
  "fromisoformat_core s =
     (case parse_isoformat_date (take 10 s) of
        None \<Rightarrow> None
      | Some d \<Rightarrow>
          if length s = 10 then new_datetime d (0, 0, 0, 0) None
          else (case parse_isoformat_time (drop 11 s) of
             None \<Rightarrow> None
           | Some (t, tz) \<Rightarrow> new_datetime d t tz))"

text \<open>
  The field validator of \<^verbatim>\<open>start_time\<close> and \<^verbatim>\<open>end_time\<close>:
  \<^verbatim>\<open>datetime.fromisoformat(v.replace("Z", "+00:00"))\<close> inside \<^verbatim>\<open>try\<close>, the value returned
  unchanged, and the \<^verbatim>\<open>ValueError\<close> replaced by one with the message of the validator.
\<close>

definition validate_iso8601 :: "(string \<Rightarrow> datetime option) \<Rightarrow> string \<Rightarrow> exn + string" where
  "validate_iso8601 fromisoformat v =
     (case fromisoformat (replace_char CHR ''Z'' ''+00:00'' v) of
        Some dt \<Rightarrow> Inr v
      | None \<Rightarrow> Inl (ValueError (''Invalid ISO-8601 datetime: '' @ v
                        @ ''. Expected format: YYYY-MM-DDTHH:MM:SSZ'')))"

section \<open>SHA-256\<close>

text \<open>
  \<^verbatim>\<open>hashlib.sha256(key.encode()).hexdigest()\<close> belongs to the Python library: the
  UTF-8 bytes of the key, and the SHA-256 digest of FIPS 180-4, printed as 64
  hexadecimal digits. A 32-bit word is an integer below \<open>2 ^ 32\<close>, with the wrap-around
  of the additions written out; the round constants and the initial hash value are
  written in decimal.
\<close>

type_synonym w32 = int

definition add32 :: "w32 \<Rightarrow> w32 \<Rightarrow> w32" where
  "add32 x y = (x + y) mod 4294967296"

definition shr :: "nat \<Rightarrow> w32 \<Rightarrow> w32" where
  "shr n x = x div 2 ^ n"

definition rotr :: "nat \<Rightarrow> w32 \<Rightarrow> w32" where
  "rotr n x = x div 2 ^ n + (x mod 2 ^ n) * 2 ^ (32 - n)"

definition Ch :: "w32 \<Rightarrow> w32 \<Rightarrow> w32 \<Rightarrow> w32" where
  "Ch x y z = (x AND y) XOR ((4294967295 - x) AND z)"

definition Maj :: "w32 \<Rightarrow> w32 \<Rightarrow> w32 \<Rightarrow> w32" where
  "Maj x y z = (x AND y) XOR (x AND z) XOR (y AND z)"

definition Sigma0 :: "w32 \<Rightarrow> w32" where
  "Sigma0 x = rotr 2 x XOR rotr 13 x XOR rotr 22 x"

definition Sigma1 :: "w32 \<Rightarrow> w32" where
  "Sigma1 x = rotr 6 x XOR rotr 11 x XOR rotr 25 x"

definition sigma0 :: "w32 \<Rightarrow> w32" where
  "sigma0 x = rotr 7 x XOR rotr 18 x XOR shr 3 x"

definition sigma1 :: "w32 \<Rightarrow> w32" where
  "sigma1 x = rotr 17 x XOR rotr 19 x XOR shr 10 x"

definition K256 :: "w32 list" where
  "K256 =
    [
     1116352408, 1899447441, 3049323471, 3921009573, 961987163, 1508970993,
     2453635748, 2870763221, 3624381080, 310598401, 607225278, 1426881987,
     1925078388, 2162078206, 2614888103, 3248222580, 3835390401, 4022224774,
     264347078, 604807628, 770255983, 1249150122, 1555081692, 1996064986,
     2554220882, 2821834349, 2952996808, 3210313671, 3336571891, 3584528711,
     113926993, 338241895, 666307205, 773529912, 1294757372, 1396182291,
     1695183700, 1986661051, 2177026350, 2456956037, 2730485921, 2820302411,
     3259730800, 3345764771, 3516065817, 3600352804, 4094571909, 275423344,
     430227734, 506948616, 659060556, 883997877, 958139571, 1322822218,
     1537002063, 1747873779, 1955562222, 2024104815, 2227730452, 2361852424,
     2428436474, 2756734187, 3204031479, 3329325298]"

definition H256 :: "w32 list" where
  "H256 = [
     1779033703, 3144134277, 1013904242, 2773480762, 1359893119, 2600822924,
     528734635, 1541459225]"

text \<open>
  One round. The state is the eight working variables and the window of the sixteen
  latest schedule words, oldest first: the round consumes the oldest word and appends
  the word sixteen places later.
\<close>

fun sha_round :: "w32 list \<times> w32 list \<Rightarrow> w32 \<Rightarrow> w32 list \<times> w32 list" where
  "sha_round ([a, b, c, d, e, f, g, h], w) k =
     (let t1 = add32 (add32 (add32 (add32 h (Sigma1 e)) (Ch e f g)) k) (w ! 0);
          t2 = add32 (Sigma0 a) (Maj a b c)
      in ([add32 t1 t2, a, b, c, add32 d t1, e, f, g],
          tl w @ [add32 (add32 (add32 (sigma1 (w ! 14)) (w ! 9)) (sigma0 (w ! 1))) (w ! 0)]))"
| "sha_round s k = s"

definition compress :: "w32 list \<Rightarrow> w32 list \<Rightarrow> w32 list" where
  "compress hs block = map2 add32 hs (fst (foldl sha_round (hs, block) K256))"

definition be_word :: "int list \<Rightarrow> w32" where
  "be_word bs = foldl (\<lambda>acc b. 256 * acc + b) 0 bs"

function chunks :: "nat \<Rightarrow> 'a list \<Rightarrow> 'a list list" where
  "chunks k xs = (if k = 0 \<or> xs = [] then [] else take k xs # chunks k (drop k xs))"
  by pat_completeness auto
termination
  by (relation "measure (\<lambda>(k, xs). length xs)") auto

declare chunks.simps [simp del]

definition length_bytes :: "nat \<Rightarrow> int list" where
  "length_bytes l =
     map (\<lambda>i. 8 * int l div 256 ^ i mod 256) [7, 6, 5, 4, 3, 2, 1, 0]"

definition pad :: "int list \<Rightarrow> int list" where
  "pad m = m @ [128] @ replicate ((119 - length m mod 64) mod 64) 0 @ length_bytes (length m)"

definition sha256 :: "int list \<Rightarrow> w32 list" where
  "sha256 m = foldl compress H256 (map (\<lambda>c. map be_word (chunks 4 c)) (chunks 64 (pad m)))"

definition hex_word :: "w32 \<Rightarrow> string" where
  "hex_word w =
     map (\<lambda>i. ''0123456789abcdef'' ! nat (w div 16 ^ i mod 16)) [7, 6, 5, 4, 3, 2, 1, 0]"

definition hexdigest :: "int list \<Rightarrow> string" where
  "hexdigest m = concat (map hex_word (sha256 m))"

definition encode :: "string \<Rightarrow> int list" where
  "encode s =
     concat (map (\<lambda>c. let n = of_char c in
                       if n < 128 then [n] else [192 + n div 64, 128 + n mod 64]) s)"

definition intent_digest :: "string \<Rightarrow> string" where
  "intent_digest key = take 16 (hexdigest (encode key))"

section \<open>Text of a value\<close>

text \<open>
  \<^verbatim>\<open>repr\<close> of a string: single quotes, or double quotes when the string holds an
  apostrophe and no double quote; the quote, the backslash and the code points that are
  not printable are escaped.
\<close>

definition hex2 :: "nat \<Rightarrow> string" where
  "hex2 n = [''0123456789abcdef'' ! (n div 16), ''0123456789abcdef'' ! (n mod 16)]"

definition repr_char :: "char \<Rightarrow> char \<Rightarrow> string" where
  "repr_char q c =
     (let n = of_char c :: nat in
      if c = q \<or> c = CHR 0x5C then [CHR 0x5C, c]
      else if c = CHR 0x09 then [CHR 0x5C, CHR ''t'']
      else if c = CHR 0x0A then [CHR 0x5C, CHR ''n'']
      else if c = CHR 0x0D then [CHR 0x5C, CHR ''r'']
      else if n < 32 \<or> (127 \<le> n \<and> n \<le> 160) \<or> n = 173 then [CHR 0x5C, CHR ''x''] @ hex2 n
      else [c])"

definition repr_str :: "string \<Rightarrow> string" where
  "repr_str s =
     (let q = (if CHR 0x27 \<in> set s \<and> CHR 0x22 \<notin> set s then CHR 0x22 else CHR 0x27)
      in [q] @ concat (map (repr_char q) s) @ [q])"

text \<open>\<^verbatim>\<open>repr(v)\<close>, and \<^verbatim>\<open>str(v)\<close> as an f-string prints a value.\<close>

fun py_repr :: "pyval \<Rightarrow> string" where
  "py_repr PNone = ''None''"
| "py_repr (PBool b) = (if b then ''True'' else ''False'')"
| "py_repr (PInt i) = str_int i"
| "py_repr (PFloat f) = f"
| "py_repr (PStr s) = repr_str s"
| "py_repr (PList xs) = ''['' @ join '', '' (map py_repr xs) @ '']''"
| "py_repr (PDict kvs) =
     ''{'' @ join '', '' (map (\<lambda>kv. repr_str (fst kv) @ '': '' @ py_repr (snd kv)) kvs) @ ''}''"

definition py_str :: "pyval \<Rightarrow> string" where
  "py_str v = (case v of PStr s \<Rightarrow> s | _ \<Rightarrow> py_repr v)"

text \<open>\<^verbatim>\<open>v[0]\<close>\<close>

definition subscript0 :: "pyval \<Rightarrow> exn + pyval" where
  "subscript0 v =
     (case v of
        PList [] \<Rightarrow> Inl (IndexError ''list index out of range'')
      | PList (x # xs) \<Rightarrow> Inr x
      | PStr [] \<Rightarrow> Inl (IndexError ''string index out of range'')
      | PStr (c # cs) \<Rightarrow> Inr (PStr [c])
      | PDict kvs \<Rightarrow> Inl (KeyError ''0'')
      | _ \<Rightarrow> Inl (TypeError (apostrophe @ type_name v @ apostrophe
                        @ '' object is not subscriptable'')))"

section \<open>Schema validation of the intent\<close>

text \<open>
  \<^verbatim>\<open>CalendarEventIntent(**normalized_data)\<close> is validated by pydantic (version 2, lax
  mode). The library is modelled field by field for the types the class declares: a
  \<^verbatim>\<open>str\<close> field takes a string only, an \<^verbatim>\<open>Optional[str]\<close> also \<^verbatim>\<open>None\<close>, a \<^verbatim>\<open>bool\<close>
  field also 0, 1 and the usual words, a \<^verbatim>\<open>List[str]\<close> a list of strings. An error is
  the location of the field and the message; a \<^verbatim>\<open>ValueError\<close> of a field validator
  is reported as \<^verbatim>\<open>Value error, \<close> and its text.
\<close>

type_synonym verror = "string \<times> string"

definition validate_action :: "string \<Rightarrow> exn + string" where
  "validate_action v =
     (if v \<noteq> ''create_calendar_event''
      then Inl (ValueError (''Action must be '' @ apostrophe @ ''create_calendar_event''
                             @ apostrophe))
      else Inr v)"

fun check_emails :: "string list \<Rightarrow> exn + string list" where
  "check_emails [] = Inr []"
| "check_emails (e # es) =
     (let email = lower (strip e) in
      if \<not> re_match email_regex email
      then Inl (ValueError (''Invalid email format: '' @ email))
      else (case check_emails es of
              Inl x \<Rightarrow> Inl x
            | Inr validated \<Rightarrow> Inr (email # validated)))"

definition validate_attendees :: "string list \<Rightarrow> exn + string list" where
  "validate_attendees v =
     (if v = [] then Inl (ValueError ''At least one attendee email is required'')
      else check_emails v)"

definition str_field :: "string \<Rightarrow> pyval \<Rightarrow> verror list + string" where
  "str_field loc v =
     (case v of PStr s \<Rightarrow> Inr s | _ \<Rightarrow> Inl [(loc, ''Input should be a valid string'')])"

definition optional_str_field :: "string \<Rightarrow> pyval \<Rightarrow> verror list + string option" where
  "optional_str_field loc v =
     (case v of
        PNone \<Rightarrow> Inr None
      | PStr s \<Rightarrow> Inr (Some s)
      | _ \<Rightarrow> Inl [(loc, ''Input should be a valid string'')])"

text \<open>
  The \<^verbatim>\<open>bool\<close> field, as the library validates it in lax mode: a bool as it is, a
  string by the words, an int that fits in 64 bits by its value, and a float by the
  integer \<^verbatim>\<open>float_as_int\<close> gives for it. A string or an integer that is no boolean is
  reported as \<^verbatim>\<open>bool_parsing\<close> (\<^verbatim>\<open>unable to interpret input\<close>), every other input as
  \<^verbatim>\<open>bool_type\<close>.

  \<^verbatim>\<open>float_as_int\<close> gives the integer of a finite float with no fractional part that
  lies strictly between \<open>- 2 ^ 63\<close> and \<open>2 ^ 63\<close>. A float is carried as its text, so
  the integer is read from the text: the digits of the mantissa, shifted by the
  exponent. (From \<open>10 ^ 16\<close> on the text holds the 17 leading digits only; the integer
  read is then not the exact value, but it is on the same side of \<open>2 ^ 63\<close>, and it is
  neither 0 nor 1.) The texts \<^verbatim>\<open>inf\<close> and \<^verbatim>\<open>nan\<close> have no digits and give no integer.
\<close>

definition exponent :: "string \<Rightarrow> int option" where
  "exponent x =
     (case x of
        [] \<Rightarrow> Some 0
      | c # ds \<Rightarrow>
          if c = CHR ''+'' then map_option int (number ds)
          else if c = CHR ''-'' then map_option (\<lambda>n. - int n) (number ds)
          else None)"

definition float_as_int :: "string \<Rightarrow> int option" where
  "float_as_int f =
     (let neg = (take 1 f = ''-'');
          body = (if neg then drop 1 f else f);
          mantissa = takeWhile (\<lambda>c. c \<noteq> CHR ''e'') body;
          int_part = takeWhile (\<lambda>c. c \<noteq> CHR ''.'') mantissa;
          frac_part = drop 1 (dropWhile (\<lambda>c. c \<noteq> CHR ''.'') mantissa)
      in case (number (int_part @ frac_part),
               exponent (drop 1 (dropWhile (\<lambda>c. c \<noteq> CHR ''e'') body))) of
           (Some n, Some x) \<Rightarrow>
             (let scale = x - int (length frac_part);
                  shifted =
                    (if 0 \<le> scale then Some (int n * 10 ^ nat scale)
                     else if int n mod 10 ^ nat (- scale) = 0
                     then Some (int n div 10 ^ nat (- scale))
                     else None)
              in case shifted of
                   None \<Rightarrow> None
                 | Some i \<Rightarrow> if i < 2 ^ 63 then Some (if neg then - i else i) else None)
         | _ \<Rightarrow> None)"

definition int_as_bool :: "string \<Rightarrow> int \<Rightarrow> verror list + bool" where
  "int_as_bool loc i =
     (if i = 0 then Inr False
      else if i = 1 then Inr True
      else Inl [(loc, ''Input should be a valid boolean, unable to interpret input'')])"

definition bool_field :: "string \<Rightarrow> pyval \<Rightarrow> verror list + bool" where
  "bool_field loc v =
     (case v of
        PBool b \<Rightarrow> Inr b
      | PStr s \<Rightarrow>
          if lower s \<in> set [''0'', ''off'', ''f'', ''false'', ''n'', ''no''] then Inr False
          else if lower s \<in> set [''1'', ''on'', ''t'', ''true'', ''y'', ''yes''] then Inr True
          else Inl [(loc, ''Input should be a valid boolean, unable to interpret input'')]
      | PInt i \<Rightarrow>
          if - (2 ^ 63) \<le> i \<and> i < 2 ^ 63 then int_as_bool loc i
          else Inl [(loc, ''Input should be a valid boolean'')]
      | PFloat f \<Rightarrow>
          (case float_as_int f of
             Some i \<Rightarrow> int_as_bool loc i
           | None \<Rightarrow> Inl [(loc, ''Input should be a valid boolean'')])
      | _ \<Rightarrow> Inl [(loc, ''Input should be a valid boolean'')])"

definition action_field :: "pyval \<Rightarrow> verror list + string" where
  "action_field v =
     (case str_field ''action'' v of
        Inl es \<Rightarrow> Inl es
      | Inr s \<Rightarrow>
          (case validate_action s of
             Inl x \<Rightarrow> Inl [(''action'', ''Value error, '' @ exn_str x)]
           | Inr a \<Rightarrow> Inr a))"

definition title_field :: "pyval \<Rightarrow> verror list + string" where
  "title_field v =
     (case str_field ''title'' v of
        Inl es \<Rightarrow> Inl es
      | Inr s \<Rightarrow>
          if length s < 1 then Inl [(''title'', ''String should have at least 1 character'')]
          else if length s > 255
          then Inl [(''title'', ''String should have at most 255 characters'')]
          else Inr s)"

definition time_field ::
  "(string \<Rightarrow> datetime option) \<Rightarrow> string \<Rightarrow> pyval \<Rightarrow> verror list + string" where
  "time_field fromisoformat loc v =
     (case str_field loc v of
        Inl es \<Rightarrow> Inl es
      | Inr s \<Rightarrow>
          (case validate_iso8601 fromisoformat s of
             Inl x \<Rightarrow> Inl [(loc, ''Value error, '' @ exn_str x)]
           | Inr t \<Rightarrow> Inr t))"

text \<open>The errors of the items of a list of strings, each at its index.\<close>

fun item_errors :: "nat \<Rightarrow> pyval list \<Rightarrow> verror list" where
  "item_errors k [] = []"
| "item_errors k (x # xs) =
     (case x of
        PStr s \<Rightarrow> item_errors (Suc k) xs
      | _ \<Rightarrow> (''attendees.'' @ str_nat k, ''Input should be a valid string'')
               # item_errors (Suc k) xs)"

definition the_str :: "pyval \<Rightarrow> string" where
  "the_str v = (case v of PStr s \<Rightarrow> s | _ \<Rightarrow> [])"

definition attendees_field :: "pyval \<Rightarrow> verror list + string list" where
  "attendees_field v =
     (case v of
        PList xs \<Rightarrow>
          if item_errors 0 xs \<noteq> [] then Inl (item_errors 0 xs)
          else if length xs < 1
          then Inl [(''attendees'', ''List should have at least 1 item after validation, not 0'')]
          else (case validate_attendees (map the_str xs) of
                  Inl x \<Rightarrow> Inl [(''attendees'', ''Value error, '' @ exn_str x)]
                | Inr validated \<Rightarrow> Inr validated)
      | _ \<Rightarrow> Inl [(''attendees'', ''Input should be a valid list'')])"

definition field_errors :: "verror list + 'a \<Rightarrow> verror list" where
  "field_errors r = (case r of Inl es \<Rightarrow> es | Inr x \<Rightarrow> [])"

text \<open>
  Two validated fields together: both values, or the errors of both in order.
\<close>

definition both :: "verror list + 'a \<Rightarrow> verror list + 'b \<Rightarrow> verror list + 'a \<times> 'b" where
  "both x y =
     (case (x, y) of
        (Inr a, Inr b) \<Rightarrow> Inr (a, b)
      | _ \<Rightarrow> Inl (field_errors x @ field_errors y))"

text \<open>
  The constructor: every field is validated, in the order of the class, and the errors
  of all fields are reported together.
\<close>

definition CalendarEventIntent_init ::
  "(string \<Rightarrow> datetime option) \<Rightarrow> (string \<times> pyval) list
     \<Rightarrow> verror list + CalendarEventIntent" where
  "CalendarEventIntent_init fromisoformat data =
     (case both (action_field (dict_get data ''action''))
          (both (title_field (dict_get data ''title''))
          (both (optional_str_field ''description'' (dict_get data ''description''))
          (both (time_field fromisoformat ''start_time'' (dict_get data ''start_time''))
          (both (time_field fromisoformat ''end_time'' (dict_get data ''end_time''))
          (both (str_field ''timezone'' (dict_get data ''timezone''))
          (both (attendees_field (dict_get data ''attendees''))
          (both (bool_field ''send_email'' (dict_get data ''send_email''))
          (both (optional_str_field ''intent_id'' (dict_get data ''intent_id''))
          (both (optional_str_field ''call_id'' (dict_get data ''call_id''))
                (optional_str_field ''org_id'' (dict_get data ''org_id'')))))))))))
      of
        Inl es \<Rightarrow> Inl es
      | Inr (a, t, d, s, e, z, l, m, i, c, g) \<Rightarrow>
          Inr \<lparr>action = a, title = t, description = d, start_time = s, end_time = e,
               timezone = z, attendees = l, send_email = m, intent_id = i,
               call_id = c, org_id = g\<rparr>)"

section \<open>Intent service\<close>

record ValidationResult =
  is_valid :: bool
  intent :: "CalendarEventIntent option"
  errors :: "string list"
  raw_input :: "(string \<times> pyval) list"

definition required_fields :: "string list" where
  "required_fields = [''title'', ''start_time'', ''end_time'', ''attendee_email'']"

text \<open>STEP 1: the required fields that are absent or falsy.\<close>

definition missing_fields :: "(string \<times> pyval) list \<Rightarrow> string list" where
  "missing_fields tool_args =
     filter (\<lambda>field. map_of tool_args field = None \<or> \<not> truthy (dict_get tool_args field))
       required_fields"

text \<open>
  STEP 2: the \<^verbatim>\<open>attendees\<close> list if it is given and truthy, otherwise the single
  \<^verbatim>\<open>attendee_email\<close> wrapped into a list.
\<close>

definition chosen_attendees :: "(string \<times> pyval) list \<Rightarrow> pyval" where
  "chosen_attendees tool_args =
     (let attendees = dict_get_default tool_args ''attendees'' (PList []) in
      if \<not> truthy attendees \<and> truthy (dict_get tool_args ''attendee_email'')
      then PList [dict_get tool_args ''attendee_email'']
      else attendees)"

text \<open>
  The key of the identity: title, start, end and \<^verbatim>\<open>attendees[0]\<close>, as the f-string
  prints them. Subscripting a value that is no list or string raises.
\<close>

definition idempotency_key :: "(string \<times> pyval) list \<Rightarrow> exn + string" where
  "idempotency_key tool_args =
     (let attendees = chosen_attendees tool_args in
      case (if truthy attendees then subscript0 attendees else Inr (PStr [])) of
        Inl x \<Rightarrow> Inl x
      | Inr first \<Rightarrow>
          Inr (py_str (dict_get tool_args ''title'') @ ''|''
               @ py_str (dict_get tool_args ''start_time'') @ ''|''
               @ py_str (dict_get tool_args ''end_time'') @ ''|'' @ py_str first))"

text \<open>
  The identity: the caller's \<^verbatim>\<open>intent_id\<close> when it is truthy, otherwise the first 16
  hexadecimal digits of the SHA-256 digest of the key.
\<close>

definition choose_intent_id :: "(string \<times> pyval) list \<Rightarrow> string \<Rightarrow> pyval" where
  "choose_intent_id tool_args key =
     (if truthy (dict_get tool_args ''intent_id'') then dict_get tool_args ''intent_id''
      else PStr (intent_digest key))"

definition normalized_data ::
  "(string \<times> pyval) list \<Rightarrow> pyval \<Rightarrow> string option \<Rightarrow> string option
     \<Rightarrow> (string \<times> pyval) list" where
  "normalized_data tool_args iid cid oid =
     [(''action'', PStr ''create_calendar_event''),
      (''title'', dict_get_default tool_args ''title'' (PStr [])),
      (''description'', dict_get_default tool_args ''description'' (PStr [])),
      (''start_time'', dict_get_default tool_args ''start_time'' (PStr [])),
      (''end_time'', dict_get_default tool_args ''end_time'' (PStr [])),
      (''timezone'', dict_get_default tool_args ''timezone'' (PStr ''UTC'')),
      (''attendees'', chosen_attendees tool_args),
      (''send_email'', dict_get_default tool_args ''send_email'' (PBool True)),
      (''intent_id'', iid),
      (''call_id'', opt_str cid),
      (''org_id'', opt_str oid)]"

text \<open>
  \<^verbatim>\<open>validate_calendar_intent\<close>: the required fields (STEP 1), the key and the identity
  (STEP 2), the schema (STEP 3). The log of failures kept for the statistics is not part
  of the model.
\<close>

definition validate_calendar_intent ::
  "(string \<Rightarrow> datetime option) \<Rightarrow> (string \<times> pyval) list \<Rightarrow> string option \<Rightarrow> string option
     \<Rightarrow> exn + ValidationResult" where
  "validate_calendar_intent fromisoformat tool_args cid oid =
     (if missing_fields tool_args \<noteq> []
      then Inr \<lparr>is_valid = False, intent = None,
                errors = [''Missing required fields: '' @ join '', '' (missing_fields tool_args)],
                raw_input = tool_args\<rparr>
      else case idempotency_key tool_args of
        Inl x \<Rightarrow> Inl x
      | Inr key \<Rightarrow>
          (case CalendarEventIntent_init
                  fromisoformat (normalized_data tool_args (choose_intent_id tool_args key) cid oid) of
             Inr i \<Rightarrow>
               Inr \<lparr>is_valid = True, intent = Some i, errors = [], raw_input = tool_args\<rparr>
           | Inl es \<Rightarrow>
               Inr \<lparr>is_valid = False, intent = None,
                    errors = map (\<lambda>(field, msg). field @ '': '' @ msg) es,
                    raw_input = tool_args\<rparr>))"

text \<open>
  \<^verbatim>\<open>parse_tool_call_safely\<close>. \<^verbatim>\<open>json.loads\<close> belongs to the Python library and is a
  parameter: it returns the decoded value or raises; only its \<^verbatim>\<open>JSONDecodeError\<close>
  is caught here.
\<close>

definition parse_tool_call_safely ::
  "(string \<Rightarrow> exn + pyval) \<Rightarrow> pyval
     \<Rightarrow> exn + ((string \<times> pyval) list option \<times> string option)" where
  "parse_tool_call_safely loads raw_data =
     (case raw_data of
        PNone \<Rightarrow> Inr (None, Some ''Tool call data is None'')
      | PDict d \<Rightarrow> Inr (Some d, None)
      | PStr s \<Rightarrow>
          (let cleaned = strip s in
           if cleaned = [] then Inr (None, Some ''Empty tool call data'')
           else (case loads cleaned of
                   Inl (JSONDecodeError m) \<Rightarrow> Inr (None, Some (''Invalid JSON: '' @ m))
                 | Inl x \<Rightarrow> Inl x
                 | Inr (PDict d) \<Rightarrow> Inr (Some d, None)
                 | Inr parsed \<Rightarrow>
                     Inr (None, Some (''Expected object, got '' @ type_name parsed))))
      | _ \<Rightarrow> Inr (None, Some (''Unexpected data type: '' @ type_name raw_data)))"

definition generate_clarification_message :: "ValidationResult \<Rightarrow> string" where
  "generate_clarification_message r =
     (if is_valid r then []
      else ''VALIDATION_FAILED: Cannot create appointment. '' @ join ''; '' (errors r)
           @ ''. Please ask the user to provide the missing or correct information.'')"

section \<open>Realtime handler\<close>

text \<open>A tool result is a dict, in the order the handler writes its keys.\<close>

type_synonym tool_result = "(string \<times> pyval) list"

text \<open>\<^verbatim>\<open>tool_args.get\<close> on a value that is no dict raises.\<close>

definition no_get :: "pyval \<Rightarrow> exn" where
  "no_get v =
     AttributeError (apostrophe @ type_name v @ apostrophe @ '' object has no attribute ''
                     @ apostrophe @ ''get'' @ apostrophe)"




text \<open>
  STEPS 3 to 6 of \<^verbatim>\<open>_handle_create_appointment\<close>, for a validated intent: the duplicate
  check, the best-effort save, the execution and the result.
\<close>

definition submit_intent ::
  "env \<Rightarrow> CalendarEventIntent \<Rightarrow> ExecutionService \<Rightarrow> (exn + tool_result) \<times> ExecutionService" where
  "submit_intent e i s =
     (if (case intent_id i of None \<Rightarrow> False | Some k \<Rightarrow> was_executed s k)
      then (Inr [(''success'', PBool True),
                 (''is_duplicate'', PBool True),
                 (''message'', PStr ''This appointment was already created.''),
                 (''appointment_id'', opt_str (intent_id i))], s)
      else
        (let db_appointment_id = (if db_ok e then intent_id i else None) in
         case execute_calendar_intent e i s of
           (execution_result, s') \<Rightarrow>
             if \<not> success execution_result
             then (Inr [(''success'', PBool False),
                        (''error'', PStr (case error execution_result of
                                            None \<Rightarrow> ''Failed to create appointment''
                                          | Some m \<Rightarrow> if m = [] then ''Failed to create appointment''
                                                      else m)),
                        (''should_retry'', PBool True),
                        (''clarification'', PStr (''I was unable to send the calendar invite. ''
                            @ ''The appointment was saved but please try again.'')),
                        (''appointment_id'', opt_str db_appointment_id)], s')
             else (case attendees i of
                     [] \<Rightarrow> (Inl (IndexError ''list index out of range''), s')
                   | a # rest \<Rightarrow>
                       (case zapier_response execution_result of
                          PDict z \<Rightarrow>
                            (Inr [(''success'', PBool True),
                                  (''message'', PStr (''Appointment created and confirmation ''
                                      @ ''email sent to '' @ a)),
                                  (''appointment_id'',
                                     opt_str (case db_appointment_id of
                                                None \<Rightarrow> intent_id i
                                              | Some k \<Rightarrow> if k = [] then intent_id i else Some k)),
                                  (''calendar_link'', dict_get z ''calendar_link''),
                                  (''email_sent'', PBool True),
                                  (''attendee_email'', PStr a),
                                  (''title'', PStr (title i)),
                                  (''start_time'', PStr (start_time i)),
                                  (''end_time'', PStr (end_time i))], s')
                        | other \<Rightarrow> (Inl (no_get other), s')))))"

text \<open>\<^verbatim>\<open>_handle_create_appointment\<close>: parse, validate, then the steps above.\<close>

definition handle_create_appointment ::
  "(string \<Rightarrow> exn + pyval) \<Rightarrow> (string \<Rightarrow> datetime option) \<Rightarrow> env \<Rightarrow> pyval
     \<Rightarrow> string option \<Rightarrow> string option \<Rightarrow> ExecutionService \<Rightarrow> (exn + tool_result) \<times> ExecutionService" where
  "handle_create_appointment loads fromisoformat e tool_args cid oid s =
     (case parse_tool_call_safely loads tool_args of
        Inl x \<Rightarrow> (Inl x, s)
      | Inr (parsed_args, parse_error) \<Rightarrow>
          if (case parse_error of None \<Rightarrow> False | Some m \<Rightarrow> m \<noteq> [])
          then (Inr [(''success'', PBool False),
                     (''error'', PStr (''Invalid tool arguments: '' @ the parse_error)),
                     (''should_retry'', PBool True),
                     (''clarification'', PStr ''Please provide valid appointment details.'')], s)
          else (case parsed_args of
             None \<Rightarrow>
               (Inl (TypeError (''argument of type '' @ apostrophe @ ''NoneType'' @ apostrophe
                                @ '' is not iterable'')), s)
           | Some d \<Rightarrow>
               (case validate_calendar_intent fromisoformat d cid oid of
                  Inl x \<Rightarrow> (Inl x, s)
                | Inr validation_result \<Rightarrow>
                    if \<not> is_valid validation_result
                    then (Inr [(''success'', PBool False),
                               (''error'', PStr (join ''; '' (errors validation_result))),
                               (''should_retry'', PBool True),
                               (''clarification'',
                                  PStr (generate_clarification_message validation_result)),
                               (''missing_fields'',
                                  PList (map (\<lambda>m. PStr (split_first CHR '':'' m))
                                           (errors validation_result)))], s)
                    else (case intent validation_result of
                            None \<Rightarrow>
                              (Inl (AttributeError (apostrophe @ ''NoneType'' @ apostrophe
                                  @ '' object has no attribute '' @ apostrophe @ ''intent_id''
                                  @ apostrophe)), s)
                          | Some i \<Rightarrow> submit_intent e i s))))"



section \<open>Example values\<close>

definition example_intent :: CalendarEventIntent where
  "example_intent =
     \<lparr>action = ''create_calendar_event'', title = ''Consult'', description = Some [],
      start_time = ''2024-12-20T14:00:00Z'', end_time = ''2024-12-20T15:00:00Z'',
      timezone = ''UTC'', attendees = [''john@example.com''], send_email = True,
      intent_id = Some ''ec55823e2cb65a1d'', call_id = None, org_id = None\<rparr>"

definition ok_env :: env where
  "ok_env =
     \<lparr>utcnow = ''2024-12-01T09:00:00'',
      http_post = (\<lambda>k url payload. Inr \<lparr>status_code = 200, body_text = ''{\"status\": \"success\"}'',
         body_json = Inr (PDict [(''status'', PStr ''success'')])\<rparr>),
      db_ok = True\<rparr>"

definition failing_env :: env where
  "failing_env =
     \<lparr>utcnow = ''2024-12-01T08:00:00'',
      http_post = (\<lambda>k url payload. Inr \<lparr>status_code = 500, body_text = ''Internal Server Error'',
         body_json = Inl (JSONDecodeError ''Expecting value: line 1 column 1 (char 0)'')\<rparr>),
      db_ok = True\<rparr>"

definition example_service :: ExecutionService where
  "example_service = ExecutionService_init ''https://hooks.zapier.com/hooks/catch/1/abc''"

definition executed_service :: ExecutionService where
  "executed_service = snd (execute_calendar_intent ok_env example_intent example_service)"

definition failed_service :: ExecutionService where
  "failed_service = snd (execute_calendar_intent failing_env example_intent example_service)"

definition example_loads :: "string \<Rightarrow> exn + pyval" where
  "example_loads s =
     (if s = ''[1, 2]'' then Inr (PList [PInt 1, PInt 2])
      else if s = ''{}'' then Inr (PDict [])
      else Inl (JSONDecodeError ''Expecting value: line 1 column 1 (char 0)''))"

text \<open>
  Two documents on which \<^verbatim>\<open>json.loads\<close> raises an exception that is no
  \<^verbatim>\<open>JSONDecodeError\<close>: 100000 opening brackets, where the decoder exceeds the recursion
  limit, and an integer literal of 5000 digits, over the limit of 4300 digits for the
  conversion of a string to an integer (Python 3.11 and the security releases of the
  earlier versions). \<open>limited_loads\<close> is a decoder that raises as the library does on
  these two documents.
\<close>

definition deep_nesting :: string where
  "deep_nesting = replicate 100000 CHR ''[''"

definition long_number :: string where
  "long_number = replicate 5000 CHR ''1''"

definition limited_loads :: "string \<Rightarrow> exn + pyval" where
  "limited_loads s =
     (if s = deep_nesting
      then Inl (RecursionError
        ''maximum recursion depth exceeded while decoding a JSON array from a unicode string'')
      else if s = long_number
      then Inl (ValueError (''Exceeds the limit (4300 digits) for integer string conversion: ''
        @ ''value has 5000 digits; use sys.set_int_max_str_digits() to increase the limit''))
      else example_loads s)"





definition both_formats_args :: "(string \<times> pyval) list" where
  "both_formats_args =
     [(''title'', PStr ''Consult''),
      (''start_time'', PStr ''2024-12-20T14:00:00Z''),
      (''end_time'', PStr ''2024-12-20T15:00:00Z''),
      (''attendee_email'', PStr ''john@example.com''),
      (''attendees'', PList [PStr ''john@example.com'', PStr '' Jane@Example.com ''])]"

definition lower_case_args :: "(string \<times> pyval) list" where
  "lower_case_args =
     [(''title'', PStr ''Consult''),
      (''start_time'', PStr ''2024-12-20T14:00:00Z''),
      (''end_time'', PStr ''2024-12-20T15:00:00Z''),
      (''attendee_email'', PStr ''john@example.com'')]"

definition upper_case_args :: "(string \<times> pyval) list" where
  "upper_case_args =
     [(''title'', PStr ''Consult''),
      (''start_time'', PStr ''2024-12-20T14:00:00Z''),
      (''end_time'', PStr ''2024-12-20T15:00:00Z''),
      (''attendee_email'', PStr ''JOHN@Example.com'')]"

section \<open>Properties of the execution service\<close>

lemma get_lock_fields [simp]:
  "executions (get_lock k s) = executions s"
  "posted (get_lock k s) = posted s"
  "webhook_url (get_lock k s) = webhook_url s"
  "locks (get_lock k s) = insert k (locks s)"
  by (auto simp: get_lock_def)

lemma get_lock_idem [simp]: "get_lock k (get_lock k s) = get_lock k s"
  by (simp add: get_lock_def)

lemma mark_executing_fields [simp]:
  "executions (mark_executing e k s) =
     (executions s)(k \<mapsto> ExecutionResult_init (utcnow e) False EXECUTING k (PDict []) None False)"
  "posted (mark_executing e k s) = posted s"
  "webhook_url (mark_executing e k s) = webhook_url s"
  "locks (mark_executing e k s) = locks s"
  by (simp_all add: mark_executing_def)

lemma ExecutionResult_init_fields [simp]:
  "success (ExecutionResult_init now ok st k resp err dup) = ok"
  "status (ExecutionResult_init now ok st k resp err dup) = st"
  "result_id (ExecutionResult_init now ok st k resp err dup) = k"
  "error (ExecutionResult_init now ok st k resp err dup) = err"
  "is_duplicate (ExecutionResult_init now ok st k resp err dup) = dup"
  "executed_at (ExecutionResult_init now ok st k resp err dup) = (if ok then Some now else None)"
  "zapier_response (ExecutionResult_init now ok st k resp err dup) = (if truthy resp then resp else PDict [])"
  by (simp_all add: ExecutionResult_init_def)

lemma call_zapier_webhook_url [simp]:
  "webhook_url (snd (call_zapier_webhook e i s)) = webhook_url s"
  by (simp add: call_zapier_webhook_def Let_def split: sum.splits exn.splits)

lemma call_zapier_webhook_executions [simp]:
  "executions (snd (call_zapier_webhook e i s)) = executions s"
  by (simp add: call_zapier_webhook_def Let_def split: sum.splits exn.splits)

lemma call_zapier_webhook_locks [simp]:
  "locks (snd (call_zapier_webhook e i s)) = locks s"
  by (simp add: call_zapier_webhook_def Let_def split: sum.splits exn.splits)

lemma call_zapier_webhook_result:
  "call_zapier_webhook e i s = (Inr r, s') \<Longrightarrow>
     status r = EXECUTED \<and> success r \<and> \<not> is_duplicate r \<and> result_id r = intent_key i
       \<and> webhook_url s \<noteq> []"
  by (auto simp: call_zapier_webhook_def Let_def split: sum.splits exn.splits if_splits)

lemma call_zapier_webhook_posted:
  "webhook_url s \<noteq> [] \<Longrightarrow> to_zapier_payload (utcnow e) i = Inr p \<Longrightarrow>
     posted (snd (call_zapier_webhook e i s)) = posted s @ [p]"
  by (simp add: call_zapier_webhook_def Let_def split: sum.splits exn.splits)

lemma finish_execution_fields [simp]:
  "webhook_url (snd (finish_execution e i s)) = webhook_url s"
  "locks (snd (finish_execution e i s)) = locks s"
  "posted (snd (finish_execution e i s)) = posted (snd (call_zapier_webhook e i s))"
  "executions (snd (finish_execution e i s)) =
     (executions s)(intent_key i \<mapsto> fst (finish_execution e i s))"
  by (cases "call_zapier_webhook e i s"; cases "fst (call_zapier_webhook e i s)";
      simp add: finish_execution_def Let_def;
      metis call_zapier_webhook_url call_zapier_webhook_locks call_zapier_webhook_executions snd_conv)+

lemma finish_execution_status:
  "status (fst (finish_execution e i s)) = EXECUTED \<and> webhook_url s \<noteq> []
     \<or> status (fst (finish_execution e i s)) = FAILED"
proof (cases "call_zapier_webhook e i s")
  case (Pair x s')
  show ?thesis
  proof (cases x)
    case (Inl a)
    with Pair show ?thesis by (simp add: finish_execution_def Let_def)
  next
    case (Inr r)
    with Pair call_zapier_webhook_result [of e i s r s'] show ?thesis
      by (simp add: finish_execution_def Let_def)
  qed
qed

lemma finish_execution_result:
  "result_id (fst (finish_execution e i s)) = intent_key i
     \<and> \<not> is_duplicate (fst (finish_execution e i s))"
proof (cases "call_zapier_webhook e i s")
  case (Pair x s')
  show ?thesis
  proof (cases x)
    case (Inl a)
    with Pair show ?thesis by (simp add: finish_execution_def Let_def)
  next
    case (Inr r)
    with Pair call_zapier_webhook_result [of e i s r s'] show ?thesis
      by (simp add: finish_execution_def Let_def)
  qed
qed

lemma reachable_execute:
  assumes "reachable s"
  shows "reachable (snd (execute_calendar_intent e i s))"
proof -
  let ?k = "intent_key i"
  have l: "reachable (get_lock ?k s)"
    using assms by (rule reachable.lock)
  show ?thesis
  proof (cases "\<exists>r. executions s ?k = Some r \<and> (status r = EXECUTED \<or> status r = EXECUTING)")
    case True
    with l show ?thesis
      by (auto simp: execute_calendar_intent_def Let_def)
  next
    case False
    then have "\<not> (\<exists>r. executions (get_lock ?k s) ?k = Some r
                  \<and> (status r = EXECUTED \<or> status r = EXECUTING))"
      by simp
    with l have "reachable (mark_executing e ?k (get_lock ?k s))"
      by (rule reachable.mark)
    then have "reachable (snd (finish_execution e i (mark_executing e ?k (get_lock ?k s))))"
      by (rule reachable.finish)
    with False show ?thesis
      by (auto simp: execute_calendar_intent_def Let_def split: option.splits)
  qed
qed

lemma reachable_url_kept:
  "reachable s \<Longrightarrow> executions s k = Some r \<Longrightarrow> status r = EXECUTED \<Longrightarrow> webhook_url s \<noteq> []"
proof (induction arbitrary: k r rule: reachable.induct)
  case (init url)
  then show ?case by (simp add: ExecutionService_init_def)
next
  case (lock s iid)
  then show ?case by simp
next
  case (mark s e iid)
  then show ?case by (auto split: if_splits)
next
  case (finish s e i)
  then show ?case
    using finish_execution_status [of e i s] by (auto split: if_splits)
next
  case (reset s iid)
  then show ?case by (auto simp: reset_execution_def split: if_splits)
qed

lemma reachable_status:
  "reachable s \<Longrightarrow> executions s k = Some r \<Longrightarrow>
     status r = EXECUTING \<or> status r = EXECUTED \<or> status r = FAILED"
proof (induction arbitrary: k r rule: reachable.induct)
  case (init url)
  then show ?case by (simp add: ExecutionService_init_def)
next
  case (lock s iid)
  then show ?case by simp
next
  case (mark s e iid)
  then show ?case by (auto split: if_splits)
next
  case (finish s e i)
  then show ?case
    using finish_execution_status [of e i s] by (auto split: if_splits)
next
  case (reset s iid)
  then show ?case by (auto simp: reset_execution_def split: if_splits)
qed

lemma submit_all_duplicates:
  assumes "executions s (intent_key i) = Some r"
      and "status r = EXECUTED \<or> status r = EXECUTING"
  shows "fst (submit_all es i s) =
           map (\<lambda>e. ExecutionResult_init (utcnow e) True DUPLICATE (intent_key i) (PDict []) None True) es
         \<and> posted (snd (submit_all es i s)) = posted s
         \<and> executions (snd (submit_all es i s)) = executions s"
  using assms
proof (induction es arbitrary: s)
  case Nil
  then show ?case by simp
next
  case (Cons e es)
  let ?s' = "get_lock (intent_key i) s"
  have step: "execute_calendar_intent e i s =
      (ExecutionResult_init (utcnow e) True DUPLICATE (intent_key i) (PDict []) None True, ?s')"
    using Cons.prems by (auto simp: execute_calendar_intent_def Let_def)
  have "executions ?s' (intent_key i) = Some r"
    using Cons.prems by simp
  from Cons.IH [OF this Cons.prems(2)] step show ?case
    by (auto split: prod.splits)
qed

lemma submit_intent_duplicate_state:
  assumes "executions s (intent_key i) = Some r"
      and "status r = EXECUTED \<or> status r = EXECUTING"
  shows "posted (snd (submit_intent e i s)) = posted s
         \<and> executions (snd (submit_intent e i s)) = executions s"
proof -
  have "execute_calendar_intent e i s =
      (ExecutionResult_init (utcnow e) True DUPLICATE (intent_key i) (PDict []) None True,
       get_lock (intent_key i) s)"
    using assms by (auto simp: execute_calendar_intent_def Let_def)
  then show ?thesis
    by (simp add: submit_intent_def Let_def split: option.splits list.splits pyval.splits)
qed

lemma submit_intent_executed:
  assumes "executions s k = Some r" and "status r = EXECUTED" and "intent_id i = Some k"
  shows "submit_intent e i s =
     (Inr [(''success'', PBool True), (''is_duplicate'', PBool True),
           (''message'', PStr ''This appointment was already created.''),
           (''appointment_id'', PStr k)], s)"
  using assms by (simp add: submit_intent_def was_executed_def opt_str_def)

lemma execute_fresh:
  assumes "executions s (intent_key i) = None
           \<or> (\<exists>r. executions s (intent_key i) = Some r \<and> status r \<noteq> EXECUTED \<and> status r \<noteq> EXECUTING)"
  shows "execute_calendar_intent e i s =
           finish_execution e i (mark_executing e (intent_key i) (get_lock (intent_key i) s))"
  using assms by (auto simp: execute_calendar_intent_def Let_def split: option.splits)

lemma call_zapier_webhook_sent:
  "call_zapier_webhook e i s = (Inr r, s') \<Longrightarrow> \<exists>p. posted s' = posted s @ [p]"
  by (auto simp: call_zapier_webhook_def Let_def split: sum.splits exn.splits if_splits)

lemma finish_execution_success:
  assumes "success (fst (finish_execution e i s))"
  shows "status (fst (finish_execution e i s)) = EXECUTED
         \<and> (\<exists>p. posted (snd (finish_execution e i s)) = posted s @ [p])"
proof (cases "call_zapier_webhook e i s")
  case (Pair x s')
  show ?thesis
  proof (cases x)
    case (Inl a)
    with Pair assms show ?thesis by (simp add: finish_execution_def Let_def)
  next
    case (Inr r)
    with Pair call_zapier_webhook_result [of e i s r s'] call_zapier_webhook_sent [of e i s r s']
    show ?thesis
      by (simp add: finish_execution_def Let_def)
  qed
qed

lemma first_success_then_duplicates:
  assumes "\<not> (\<exists>r. executions s (intent_key i) = Some r
                \<and> (status r = EXECUTED \<or> status r = EXECUTING))"
      and "success (fst (execute_calendar_intent e i s))"
  shows "length (posted (snd (submit_all (e # es) i s))) = Suc (length (posted s))
         \<and> map status (fst (submit_all (e # es) i s)) = EXECUTED # replicate (length es) DUPLICATE"
proof -
  let ?k = "intent_key i"
  let ?m = "mark_executing e ?k (get_lock ?k s)"
  have fresh: "executions s ?k = None
      \<or> (\<exists>r. executions s ?k = Some r \<and> status r \<noteq> EXECUTED \<and> status r \<noteq> EXECUTING)"
    using assms(1) by (cases "executions s ?k") auto
  note ex = execute_fresh [OF fresh, of e]
  from assms(2) have "success (fst (finish_execution e i ?m))"
    by (simp add: ex)
  from finish_execution_success [OF this] obtain p
    where st: "status (fst (finish_execution e i ?m)) = EXECUTED"
      and po: "posted (snd (finish_execution e i ?m)) = posted s @ [p]"
    by auto
  let ?r = "fst (execute_calendar_intent e i s)"
  let ?s' = "snd (execute_calendar_intent e i s)"
  have rec: "executions ?s' ?k = Some ?r"
    by (simp add: ex)
  have dup: "status ?r = EXECUTED \<or> status ?r = EXECUTING"
    using st by (simp add: ex)
  from submit_all_duplicates [OF rec dup, of es]
  have "posted (snd (submit_all es i ?s')) = posted ?s'"
    and "map status (fst (submit_all es i ?s')) = replicate (length es) DUPLICATE"
    by (simp_all add: map_replicate_const comp_def)
  with st po show ?thesis
    by (simp add: ex split: prod.splits) (metis ex fst_conv snd_conv length_append_singleton po)
qed

text \<open>
  Claim C1, as amended. Once the ledger holds a record at \<^verbatim>\<open>EXECUTED\<close> or \<^verbatim>\<open>EXECUTING\<close> for an
  identity, \<^verbatim>\<open>execute_calendar_intent\<close> on an intent of that identity returns the
  \<^verbatim>\<open>DUPLICATE\<close> result with \<^verbatim>\<open>success = True\<close>, sends nothing to the webhook and leaves
  the stored records as they are; and so does every further submission of the intent,
  however many follow: no further webhook call is made for the identity. The handler's
  path for a validated intent sends nothing either, and
  answers an \<^verbatim>\<open>EXECUTED\<close> identity with the duplicate result without touching the
  service. So, from a ledger with no such record for the identity, when the first of
  any number of submissions of an intent succeeds, the webhook is called once and every
  later submission is a duplicate.
\<close>

theorem C1_executed_identity_is_deduplicated:
  assumes "executions s (intent_key i) = Some r"
      and "status r = EXECUTED \<or> status r = EXECUTING"
  shows "fst (execute_calendar_intent e i s) =
           ExecutionResult_init (utcnow e) True DUPLICATE (intent_key i) (PDict []) None True
         \<and> success (fst (execute_calendar_intent e i s))
         \<and> status (fst (execute_calendar_intent e i s)) = DUPLICATE
         \<and> posted (snd (execute_calendar_intent e i s)) = posted s
         \<and> executions (snd (execute_calendar_intent e i s)) = executions s
         \<and> fst (submit_all es i s) =
             map (\<lambda>e'. ExecutionResult_init (utcnow e') True DUPLICATE (intent_key i) (PDict []) None True) es
         \<and> posted (snd (submit_all es i s)) = posted s
         \<and> executions (snd (submit_all es i s)) = executions s
         \<and> posted (snd (submit_intent e i s)) = posted s
         \<and> executions (snd (submit_intent e i s)) = executions s
         \<and> (status r = EXECUTED \<longrightarrow> intent_id i = Some (intent_key i) \<longrightarrow>
               submit_intent e i s =
                 (Inr [(''success'', PBool True), (''is_duplicate'', PBool True),
                       (''message'', PStr ''This appointment was already created.''),
                       (''appointment_id'', PStr (intent_key i))], s))
         \<and> (\<forall>s0 e0.
               \<not> (\<exists>r0. executions s0 (intent_key i) = Some r0
                       \<and> (status r0 = EXECUTED \<or> status r0 = EXECUTING)) \<longrightarrow>
               success (fst (execute_calendar_intent e0 i s0)) \<longrightarrow>
               length (posted (snd (submit_all (e0 # es) i s0))) = Suc (length (posted s0))
               \<and> map status (fst (submit_all (e0 # es) i s0)) =
                   EXECUTED # replicate (length es) DUPLICATE)"
proof -
  have "execute_calendar_intent e i s =
      (ExecutionResult_init (utcnow e) True DUPLICATE (intent_key i) (PDict []) None True,
       get_lock (intent_key i) s)"
    using assms by (auto simp: execute_calendar_intent_def Let_def)
  then have here: "fst (execute_calendar_intent e i s) =
           ExecutionResult_init (utcnow e) True DUPLICATE (intent_key i) (PDict []) None True
         \<and> success (fst (execute_calendar_intent e i s))
         \<and> status (fst (execute_calendar_intent e i s)) = DUPLICATE
         \<and> posted (snd (execute_calendar_intent e i s)) = posted s
         \<and> executions (snd (execute_calendar_intent e i s)) = executions s"
    by simp
  have first: "\<forall>s0 e0.
               \<not> (\<exists>r0. executions s0 (intent_key i) = Some r0
                       \<and> (status r0 = EXECUTED \<or> status r0 = EXECUTING)) \<longrightarrow>
               success (fst (execute_calendar_intent e0 i s0)) \<longrightarrow>
               length (posted (snd (submit_all (e0 # es) i s0))) = Suc (length (posted s0))
               \<and> map status (fst (submit_all (e0 # es) i s0)) =
                   EXECUTED # replicate (length es) DUPLICATE"
    using first_success_then_duplicates [of _ i _ es] by blast
  from here first show ?thesis
    using submit_all_duplicates [OF assms, of es]
      submit_intent_duplicate_state [OF assms, of e]
      submit_intent_executed [OF assms(1), of i e]
    by simp
qed

lemma example_key: "intent_key example_intent = ''ec55823e2cb65a1d''"
  by (simp add: intent_key_def example_intent_def)

lemma example_payload:
  "to_zapier_payload now example_intent = Inr (PDict
            [(''appointment_id'', PStr ''ec55823e2cb65a1d''),
             (''title'', PStr ''Consult''),
             (''description'', PStr []),
             (''start_time'', PStr ''2024-12-20T14:00:00Z''),
             (''end_time'', PStr ''2024-12-20T15:00:00Z''),
             (''timezone'', PStr ''UTC''),
             (''attendee_email'', PStr ''john@example.com''),
             (''attendee_name'', PStr []),
             (''additional_attendees'', PList []),
             (''send_email'', PBool True),
             (''created_at'', PStr now)])"
  by (simp add: to_zapier_payload_def example_intent_def opt_str_def)

lemma example_first_execution:
  "execute_calendar_intent ok_env example_intent example_service =
     (ExecutionResult_init ''2024-12-01T09:00:00'' True EXECUTED ''ec55823e2cb65a1d''
        (PDict [(''status'', PStr ''success'')]) None False,
      \<lparr>executions = [''ec55823e2cb65a1d'' \<mapsto>
           ExecutionResult_init ''2024-12-01T09:00:00'' True EXECUTED ''ec55823e2cb65a1d''
             (PDict [(''status'', PStr ''success'')]) None False],
       locks = {''ec55823e2cb65a1d''},
       webhook_url = ''https://hooks.zapier.com/hooks/catch/1/abc'',
       posted = [PDict
            [(''appointment_id'', PStr ''ec55823e2cb65a1d''),
             (''title'', PStr ''Consult''),
             (''description'', PStr []),
             (''start_time'', PStr ''2024-12-20T14:00:00Z''),
             (''end_time'', PStr ''2024-12-20T15:00:00Z''),
             (''timezone'', PStr ''UTC''),
             (''attendee_email'', PStr ''john@example.com''),
             (''attendee_name'', PStr []),
             (''additional_attendees'', PList []),
             (''send_email'', PBool True),
             (''created_at'', PStr ''2024-12-01T09:00:00'')]]\<rparr>)"
  by (simp add: execute_calendar_intent_def example_key example_service_def
      ExecutionService_init_def get_lock_def mark_executing_def finish_execution_def
      call_zapier_webhook_def example_payload ok_env_def Let_def)

lemma executed_service_record:
  "executions executed_service (intent_key example_intent) =
     Some (ExecutionResult_init ''2024-12-01T09:00:00'' True EXECUTED ''ec55823e2cb65a1d''
             (PDict [(''status'', PStr ''success'')]) None False)"
  by (simp add: executed_service_def example_first_execution example_key)

lemma executed_service_posted: "length (posted executed_service) = 1"
  by (simp add: executed_service_def example_first_execution)

lemma executed_service_reachable: "reachable executed_service"
  unfolding executed_service_def example_service_def
  by (rule reachable_execute, rule reachable.init)

text \<open>
  The hypotheses of C1 hold in the state left by a first, successful execution of the
  example intent: three more submissions are duplicates and the webhook has been called
  once.
\<close>

theorem C1_witness:
  "status (the (executions executed_service ''ec55823e2cb65a1d'')) = EXECUTED
   \<and> fst (execute_calendar_intent failing_env example_intent executed_service) =
       \<lparr>success = True, status = DUPLICATE, result_id = ''ec55823e2cb65a1d'',
        zapier_response = PDict [], error = None, is_duplicate = True,
        executed_at = Some ''2024-12-01T08:00:00''\<rparr>
   \<and> posted (snd (execute_calendar_intent failing_env example_intent executed_service)) =
       posted executed_service
   \<and> map status (fst (submit_all [ok_env, failing_env, ok_env] example_intent executed_service)) =
       [DUPLICATE, DUPLICATE, DUPLICATE]
   \<and> length (posted (snd (submit_all [ok_env, failing_env, ok_env] example_intent executed_service))) = 1
   \<and> submit_intent failing_env example_intent executed_service =
       (Inr [(''success'', PBool True), (''is_duplicate'', PBool True),
             (''message'', PStr ''This appointment was already created.''),
             (''appointment_id'', PStr ''ec55823e2cb65a1d'')], executed_service)
   \<and> map status (fst (submit_all [ok_env, failing_env, ok_env] example_intent example_service)) =
       [EXECUTED, DUPLICATE, DUPLICATE]
   \<and> length (posted (snd (submit_all [ok_env, failing_env, ok_env] example_intent
         example_service))) = 1"
proof -
  have i: "intent_id example_intent = Some (intent_key example_intent)"
    by (simp add: example_key) (simp add: example_intent_def)
  have n: "\<not> (\<exists>r0. executions example_service (intent_key example_intent) = Some r0
                \<and> (status r0 = EXECUTED \<or> status r0 = EXECUTING))"
    by (simp add: example_service_def ExecutionService_init_def)
  have f: "success (fst (execute_calendar_intent ok_env example_intent example_service))"
    by (simp add: example_first_execution)
  have p: "posted example_service = []"
    by (simp add: example_service_def ExecutionService_init_def)
  note c = C1_executed_identity_is_deduplicated
      [OF executed_service_record, of failing_env "[ok_env, failing_env, ok_env]"]
  note d = C1_executed_identity_is_deduplicated
      [OF executed_service_record, of failing_env "[failing_env, ok_env]"]
  from d n f p
  have "map status (fst (submit_all [ok_env, failing_env, ok_env] example_intent example_service)) =
       [EXECUTED, DUPLICATE, DUPLICATE]
   \<and> length (posted (snd (submit_all [ok_env, failing_env, ok_env] example_intent
         example_service))) = 1"
    by (simp add: numeral_2_eq_2)
  with c executed_service_record executed_service_posted i show ?thesis
    by (simp add: example_key ExecutionResult_init_def failing_env_def)
qed

text \<open>
  Claim C1 as stated fails in its last part, one webhook call however the submissions
  end: the same intent is submitted four times and the endpoint answers 500 to the
  first two; the webhook is called three times.
\<close>

theorem C1_counterexample:
  "map status (fst (submit_all [failing_env, failing_env, ok_env, ok_env] example_intent
      example_service)) = [FAILED, FAILED, EXECUTED, DUPLICATE]
   \<and> length (posted (snd (submit_all [failing_env, failing_env, ok_env, ok_env] example_intent
      example_service))) = 3"
proof -
  have "str_int 500 = ''500''"
    by (simp add: str_int_def str_nat.simps)
  then show ?thesis
    by (simp add: execute_calendar_intent_def example_key example_service_def
        ExecutionService_init_def get_lock_def mark_executing_def finish_execution_def
        call_zapier_webhook_def example_payload failing_env_def ok_env_def Let_def
        ExecutionResult_init_def)
qed

lemma example_failed_execution:
  "execute_calendar_intent failing_env example_intent example_service =
     (ExecutionResult_init ''2024-12-01T08:00:00'' False FAILED ''ec55823e2cb65a1d'' (PDict [])
        (Some ''Zapier returned 500: Internal Server Error'') False,
      \<lparr>executions = [''ec55823e2cb65a1d'' \<mapsto>
           ExecutionResult_init ''2024-12-01T08:00:00'' False FAILED ''ec55823e2cb65a1d'' (PDict [])
             (Some ''Zapier returned 500: Internal Server Error'') False],
       locks = {''ec55823e2cb65a1d''},
       webhook_url = ''https://hooks.zapier.com/hooks/catch/1/abc'',
       posted = [PDict
            [(''appointment_id'', PStr ''ec55823e2cb65a1d''),
             (''title'', PStr ''Consult''),
             (''description'', PStr []),
             (''start_time'', PStr ''2024-12-20T14:00:00Z''),
             (''end_time'', PStr ''2024-12-20T15:00:00Z''),
             (''timezone'', PStr ''UTC''),
             (''attendee_email'', PStr ''john@example.com''),
             (''attendee_name'', PStr []),
             (''additional_attendees'', PList []),
             (''send_email'', PBool True),
             (''created_at'', PStr ''2024-12-01T08:00:00'')]]\<rparr>)"
proof -
  have "str_int 500 = ''500''"
    by (simp add: str_int_def str_nat.simps)
  then show ?thesis
    by (simp add: execute_calendar_intent_def example_key example_service_def
        ExecutionService_init_def get_lock_def mark_executing_def finish_execution_def
        call_zapier_webhook_def example_payload failing_env_def Let_def)
qed

lemma failed_service_record:
  "executions failed_service (intent_key example_intent) =
     Some (ExecutionResult_init ''2024-12-01T08:00:00'' False FAILED ''ec55823e2cb65a1d'' (PDict [])
        (Some ''Zapier returned 500: Internal Server Error'') False)"
  by (simp add: failed_service_def example_failed_execution example_key)

lemma failed_service_fields:
  "webhook_url failed_service = ''https://hooks.zapier.com/hooks/catch/1/abc''"
  "length (posted failed_service) = 1"
  by (simp_all add: failed_service_def example_failed_execution)

lemma failed_service_eq:
  "failed_service =
      \<lparr>executions = [''ec55823e2cb65a1d'' \<mapsto>
           ExecutionResult_init ''2024-12-01T08:00:00'' False FAILED ''ec55823e2cb65a1d'' (PDict [])
             (Some ''Zapier returned 500: Internal Server Error'') False],
       locks = {''ec55823e2cb65a1d''},
       webhook_url = ''https://hooks.zapier.com/hooks/catch/1/abc'',
       posted = [PDict
            [(''appointment_id'', PStr ''ec55823e2cb65a1d''),
             (''title'', PStr ''Consult''),
             (''description'', PStr []),
             (''start_time'', PStr ''2024-12-20T14:00:00Z''),
             (''end_time'', PStr ''2024-12-20T15:00:00Z''),
             (''timezone'', PStr ''UTC''),
             (''attendee_email'', PStr ''john@example.com''),
             (''attendee_name'', PStr []),
             (''additional_attendees'', PList []),
             (''send_email'', PBool True),
             (''created_at'', PStr ''2024-12-01T08:00:00'')]]\<rparr>"
  by (simp add: failed_service_def example_failed_execution)

lemma execute_fresh_calls_webhook:
  assumes "executions s (intent_key i) = None
           \<or> (\<exists>r. executions s (intent_key i) = Some r \<and> status r \<noteq> EXECUTED \<and> status r \<noteq> EXECUTING)"
      and "webhook_url s \<noteq> []" and "to_zapier_payload (utcnow e) i = Inr p"
  shows "posted (snd (execute_calendar_intent e i s)) = posted s @ [p]
         \<and> (status (fst (execute_calendar_intent e i s)) = EXECUTED
              \<or> status (fst (execute_calendar_intent e i s)) = FAILED)
         \<and> \<not> is_duplicate (fst (execute_calendar_intent e i s))
         \<and> executions (snd (execute_calendar_intent e i s)) (intent_key i) =
             Some (fst (execute_calendar_intent e i s))"
proof -
  let ?m = "mark_executing e (intent_key i) (get_lock (intent_key i) s)"
  have "posted (snd (call_zapier_webhook e i ?m)) = posted ?m @ [p]"
    by (rule call_zapier_webhook_posted) (simp_all add: assms)
  then show ?thesis
    using execute_fresh [OF assms(1), of e] finish_execution_status [of e i ?m]
      finish_execution_result [of e i ?m]
    by auto
qed

lemma payload_exists:
  "attendees i \<noteq> [] \<Longrightarrow> \<exists>p. to_zapier_payload now i = Inr p"
  by (cases "attendees i") (simp_all add: to_zapier_payload_def)

text \<open>
  Claim C3, as amended. A record at \<^verbatim>\<open>FAILED\<close> does not deduplicate: with the webhook
  configured, executing an intent of that identity again sends its payload to the
  webhook once more and overwrites the record with the new outcome (\<^verbatim>\<open>EXECUTED\<close> or
  \<^verbatim>\<open>FAILED\<close>); the result is no duplicate and no purge is needed first.
\<close>

theorem C3_failed_identity_is_executed_again:
  assumes "executions s (intent_key i) = Some r" and "status r = FAILED"
      and "webhook_url s \<noteq> []" and "attendees i \<noteq> []"
  shows "(\<exists>p. to_zapier_payload (utcnow e) i = Inr p
            \<and> posted (snd (execute_calendar_intent e i s)) = posted s @ [p])
         \<and> (status (fst (execute_calendar_intent e i s)) = EXECUTED
              \<or> status (fst (execute_calendar_intent e i s)) = FAILED)
         \<and> \<not> is_duplicate (fst (execute_calendar_intent e i s))
         \<and> executions (snd (execute_calendar_intent e i s)) (intent_key i) =
             Some (fst (execute_calendar_intent e i s))"
proof -
  obtain p where p: "to_zapier_payload (utcnow e) i = Inr p"
    using payload_exists [OF assms(4)] by blast
  have "executions s (intent_key i) = None
        \<or> (\<exists>r. executions s (intent_key i) = Some r \<and> status r \<noteq> EXECUTED \<and> status r \<noteq> EXECUTING)"
    using assms(1,2) by simp
  from execute_fresh_calls_webhook [OF this assms(3) p] p show ?thesis
    by blast
qed

text \<open>
  Claim C3 as stated fails: after a failed attempt (the endpoint answered 500), the same
  intent executed again is sent to the webhook a second time and is not reported as a
  duplicate.
\<close>

theorem C3_counterexample:
  "status (the (executions failed_service (intent_key example_intent))) = FAILED
   \<and> status (fst (execute_calendar_intent ok_env example_intent failed_service)) = EXECUTED
   \<and> \<not> is_duplicate (fst (execute_calendar_intent ok_env example_intent failed_service))
   \<and> length (posted failed_service) = 1
   \<and> length (posted (snd (execute_calendar_intent ok_env example_intent failed_service))) = 2"
  unfolding failed_service_eq
  by (simp add: execute_calendar_intent_def example_key
      get_lock_def mark_executing_def finish_execution_def
      call_zapier_webhook_def example_payload ok_env_def Let_def ExecutionResult_init_def)

text \<open>The hypotheses of the amended C3 hold in the state left by the failed attempt.\<close>

theorem C3_witness:
  "status (the (executions failed_service (intent_key example_intent))) = FAILED
   \<and> webhook_url failed_service \<noteq> [] \<and> attendees example_intent \<noteq> []
   \<and> posted (snd (execute_calendar_intent ok_env example_intent failed_service)) =
       posted failed_service @ [PDict
            [(''appointment_id'', PStr ''ec55823e2cb65a1d''),
             (''title'', PStr ''Consult''),
             (''description'', PStr []),
             (''start_time'', PStr ''2024-12-20T14:00:00Z''),
             (''end_time'', PStr ''2024-12-20T15:00:00Z''),
             (''timezone'', PStr ''UTC''),
             (''attendee_email'', PStr ''john@example.com''),
             (''attendee_name'', PStr []),
             (''additional_attendees'', PList []),
             (''send_email'', PBool True),
             (''created_at'', PStr ''2024-12-01T09:00:00'')]]
   \<and> \<not> is_duplicate (fst (execute_calendar_intent ok_env example_intent failed_service))"
proof -
  have a: "attendees example_intent \<noteq> []" by (simp add: example_intent_def)
  have u: "webhook_url failed_service \<noteq> []" by (simp add: failed_service_fields)
  have f: "status (ExecutionResult_init ''2024-12-01T08:00:00'' False FAILED ''ec55823e2cb65a1d'' (PDict [])
        (Some ''Zapier returned 500: Internal Server Error'') False) = FAILED" by simp
  show ?thesis
    using C3_failed_identity_is_executed_again [OF failed_service_record f u a, of ok_env]
      failed_service_record a u
    by (simp add: example_payload ok_env_def)
qed

lemma reset_execution_present:
  "executions s k = Some r \<Longrightarrow>
     reset_execution k s =
       (True, s\<lparr>executions := (executions s)(k := None), locks := locks s - {k}\<rparr>)"
  by (auto simp: reset_execution_def intro!: ExecutionService.equality)

lemma reset_execution_absent:
  "executions s k = None \<Longrightarrow> reset_execution k s = (False, s)"
  by (auto simp: reset_execution_def)

text \<open>
  Claim C9. \<^verbatim>\<open>reset_execution\<close> on an identity with a record deletes the record and
  the lock and returns \<^verbatim>\<open>True\<close>, and returns \<^verbatim>\<open>False\<close> leaving the service as it is when
  there is no record. After the purge of an \<^verbatim>\<open>EXECUTED\<close> identity, \<^verbatim>\<open>was_executed\<close> is
  false, and executing an identical intent is no duplicate: its payload is sent to the
  webhook afresh. (In a reachable state an \<^verbatim>\<open>EXECUTED\<close> record shows that the webhook
  URL is configured.)
\<close>

theorem C9_purge_enables_fresh_execution:
  assumes "reachable s" and "executions s (intent_key i) = Some r"
      and "status r = EXECUTED" and "attendees i \<noteq> []"
  shows "fst (reset_execution (intent_key i) s) = True
         \<and> executions (snd (reset_execution (intent_key i) s)) (intent_key i) = None
         \<and> intent_key i \<notin> locks (snd (reset_execution (intent_key i) s))
         \<and> \<not> was_executed (snd (reset_execution (intent_key i) s)) (intent_key i)
         \<and> \<not> is_duplicate
               (fst (execute_calendar_intent e i (snd (reset_execution (intent_key i) s))))
         \<and> status (fst (execute_calendar_intent e i (snd (reset_execution (intent_key i) s))))
               \<noteq> DUPLICATE
         \<and> (\<exists>p. to_zapier_payload (utcnow e) i = Inr p
               \<and> posted (snd (execute_calendar_intent e i (snd (reset_execution (intent_key i) s))))
                   = posted s @ [p])
         \<and> (\<forall>t k. reset_execution k t =
               (if executions t k = None then (False, t)
                else (True, t\<lparr>executions := (executions t)(k := None),
                              locks := locks t - {k}\<rparr>)))"
proof -
  let ?k = "intent_key i"
  let ?s' = "s\<lparr>executions := (executions s)(?k := None), locks := locks s - {?k}\<rparr>"
  have rs: "reset_execution ?k s = (True, ?s')"
    using assms(2) by (rule reset_execution_present)
  have url: "webhook_url ?s' \<noteq> []"
    using reachable_url_kept [OF assms(1-3)] by simp
  obtain p where p: "to_zapier_payload (utcnow e) i = Inr p"
    using payload_exists [OF assms(4)] by blast
  have none: "executions ?s' ?k = None
      \<or> (\<exists>r. executions ?s' ?k = Some r \<and> status r \<noteq> EXECUTED \<and> status r \<noteq> EXECUTING)"
    by simp
  have ex: "posted (snd (execute_calendar_intent e i ?s')) = posted ?s' @ [p]
         \<and> (status (fst (execute_calendar_intent e i ?s')) = EXECUTED
              \<or> status (fst (execute_calendar_intent e i ?s')) = FAILED)
         \<and> \<not> is_duplicate (fst (execute_calendar_intent e i ?s'))
         \<and> executions (snd (execute_calendar_intent e i ?s')) ?k =
             Some (fst (execute_calendar_intent e i ?s'))"
    by (rule execute_fresh_calls_webhook [OF none url p])
  have w: "\<not> was_executed ?s' ?k"
    by (simp add: was_executed_def)
  have "\<forall>t k. reset_execution k t =
               (if executions t k = None then (False, t)
                else (True, t\<lparr>executions := (executions t)(k := None),
                              locks := locks t - {k}\<rparr>))"
    by (auto simp: reset_execution_absent reset_execution_present)
  with rs ex w p show ?thesis
    by auto
qed

text \<open>
  The hypotheses of C9 hold in the state left by the successful execution of the example
  intent; after the purge the second execution is the second webhook call.
\<close>

theorem C9_witness:
  "reachable executed_service
   \<and> status (the (executions executed_service (intent_key example_intent))) = EXECUTED
   \<and> was_executed executed_service (intent_key example_intent)
   \<and> fst (reset_execution (intent_key example_intent) executed_service) = True
   \<and> \<not> was_executed (snd (reset_execution (intent_key example_intent) executed_service))
          (intent_key example_intent)
   \<and> status (fst (execute_calendar_intent ok_env example_intent
         (snd (reset_execution (intent_key example_intent) executed_service)))) \<noteq> DUPLICATE
   \<and> length (posted (snd (execute_calendar_intent ok_env example_intent
         (snd (reset_execution (intent_key example_intent) executed_service))))) = 2
   \<and> fst (reset_execution ''0000000000000000'' executed_service) = False"
proof -
  have a: "attendees example_intent \<noteq> []" by (simp add: example_intent_def)
  have f: "status (ExecutionResult_init ''2024-12-01T09:00:00'' True EXECUTED ''ec55823e2cb65a1d''
             (PDict [(''status'', PStr ''success'')]) None False) = EXECUTED" by simp
  have n: "executions executed_service ''0000000000000000'' = None"
    by (simp add: executed_service_def example_first_execution)
  show ?thesis
    using C9_purge_enables_fresh_execution
        [OF executed_service_reachable executed_service_record f a, of ok_env]
      executed_service_reachable executed_service_record executed_service_posted n
    by (auto simp: was_executed_def)
qed

text \<open>
  Claim C10. In every state the service passes through, each stored record has status
  \<^verbatim>\<open>EXECUTING\<close>, \<^verbatim>\<open>EXECUTED\<close> or \<^verbatim>\<open>FAILED\<close>; a duplicate attempt returns its
  \<^verbatim>\<open>DUPLICATE\<close> result without storing it; and so \<^verbatim>\<open>was_executed\<close> is true exactly
  when the stored record of the identity has status \<^verbatim>\<open>EXECUTED\<close>.
\<close>

theorem C10_stored_statuses:
  assumes "reachable s"
  shows "(\<forall>k r. executions s k = Some r \<longrightarrow>
            status r = EXECUTING \<or> status r = EXECUTED \<or> status r = FAILED)
         \<and> (\<forall>k. was_executed s k \<longleftrightarrow> (\<exists>r. executions s k = Some r \<and> status r = EXECUTED))
         \<and> (\<forall>e i. status (fst (execute_calendar_intent e i s)) = DUPLICATE \<longrightarrow>
                executions (snd (execute_calendar_intent e i s)) = executions s)
         \<and> (\<forall>e i. reachable (snd (execute_calendar_intent e i s)))"
proof -
  have st: "\<forall>k r. executions s k = Some r \<longrightarrow>
            status r = EXECUTING \<or> status r = EXECUTED \<or> status r = FAILED"
    using reachable_status [OF assms] by blast
  have we: "\<forall>k. was_executed s k \<longleftrightarrow> (\<exists>r. executions s k = Some r \<and> status r = EXECUTED)"
  proof
    fix k
    show "was_executed s k \<longleftrightarrow> (\<exists>r. executions s k = Some r \<and> status r = EXECUTED)"
    proof (cases "executions s k")
      case None
      then show ?thesis by (simp add: was_executed_def)
    next
      case (Some r)
      with st have "status r \<noteq> DUPLICATE" by force
      with Some show ?thesis by (simp add: was_executed_def)
    qed
  qed
  have du: "\<forall>e i. status (fst (execute_calendar_intent e i s)) = DUPLICATE \<longrightarrow>
                executions (snd (execute_calendar_intent e i s)) = executions s"
  proof (intro allI impI)
    fix e i
    let ?m = "mark_executing e (intent_key i) (get_lock (intent_key i) s)"
    assume d: "status (fst (execute_calendar_intent e i s)) = DUPLICATE"
    have "status (fst (finish_execution e i ?m)) \<noteq> DUPLICATE"
      using finish_execution_status [of e i ?m] by auto
    with d show "executions (snd (execute_calendar_intent e i s)) = executions s"
      by (auto simp: execute_calendar_intent_def Let_def split: option.splits if_splits)
  qed
  from st we du reachable_execute [OF assms] show ?thesis
    by blast
qed

text \<open>The state left by the successful execution of the example intent is reachable.\<close>

theorem C10_witness:
  "reachable executed_service
   \<and> status (the (executions executed_service ''ec55823e2cb65a1d'')) = EXECUTED
   \<and> was_executed executed_service ''ec55823e2cb65a1d''
   \<and> \<not> was_executed executed_service ''0000000000000000''
   \<and> status (fst (execute_calendar_intent ok_env example_intent executed_service)) = DUPLICATE
   \<and> executions (snd (execute_calendar_intent ok_env example_intent executed_service)) =
       executions executed_service"
proof -
  have d: "status (fst (execute_calendar_intent ok_env example_intent executed_service)) = DUPLICATE"
    using executed_service_record
    by (simp add: execute_calendar_intent_def Let_def)
  have n: "executions executed_service ''0000000000000000'' = None"
    by (simp add: executed_service_def example_first_execution)
  show ?thesis
    using C10_stored_statuses [OF executed_service_reachable] executed_service_reachable
      executed_service_record d n
    by (auto simp: example_key)
qed

section \<open>Properties of parsing and routing\<close>

text \<open>
  What \<^verbatim>\<open>parse_tool_call_safely\<close> returns, case by case: \<^verbatim>\<open>None\<close>, a string that is
  empty or white space, a string on which the decoder raises \<^verbatim>\<open>JSONDecodeError\<close> and a
  string holding a JSON value that is no object each give no dict and a message; a dict
  is returned as it is, with no error.
\<close>

lemma parse_tool_call_safely_cases:
  "parse_tool_call_safely loads PNone = Inr (None, Some ''Tool call data is None'')"
  "strip s = [] \<Longrightarrow>
     parse_tool_call_safely loads (PStr s) = Inr (None, Some ''Empty tool call data'')"
  "strip s \<noteq> [] \<Longrightarrow> loads (strip s) = Inl (JSONDecodeError m) \<Longrightarrow>
     parse_tool_call_safely loads (PStr s) = Inr (None, Some (''Invalid JSON: '' @ m))"
  "strip s \<noteq> [] \<Longrightarrow> loads (strip s) = Inr v \<Longrightarrow> (\<forall>d. v \<noteq> PDict d) \<Longrightarrow>
     parse_tool_call_safely loads (PStr s) =
       Inr (None, Some (''Expected object, got '' @ type_name v))"
  "parse_tool_call_safely loads (PDict d) = Inr (Some d, None)"
  by (cases v; simp add: parse_tool_call_safely_def)+

lemma strip_examples:
  "strip [CHR '' '', CHR 0x0A, CHR '' ''] = []"
  "strip ''not json'' = ''not json''"
  "strip '' [1, 2] '' = ''[1, 2]''"
  by (simp_all add: strip_def is_space_def)

lemma parse_examples:
  "parse_tool_call_safely example_loads PNone = Inr (None, Some ''Tool call data is None'')"
  "parse_tool_call_safely example_loads (PStr []) = Inr (None, Some ''Empty tool call data'')"
  "parse_tool_call_safely example_loads (PStr [CHR '' '', CHR 0x0A, CHR '' '']) =
     Inr (None, Some ''Empty tool call data'')"
  "parse_tool_call_safely example_loads (PStr ''not json'') =
     Inr (None, Some ''Invalid JSON: Expecting value: line 1 column 1 (char 0)'')"
  "parse_tool_call_safely example_loads (PStr '' [1, 2] '') =
     Inr (None, Some ''Expected object, got list'')"
  "parse_tool_call_safely example_loads (PDict [(''title'', PStr ''Consult'')]) =
     Inr (Some [(''title'', PStr ''Consult'')], None)"
  by (simp_all add: parse_tool_call_safely_def strip_examples example_loads_def)
     (simp add: strip_def)

text \<open>
  The function raises exactly when the decoder raises, on the stripped text of a
  string, an exception that is no \<^verbatim>\<open>JSONDecodeError\<close>: the \<^verbatim>\<open>except\<close> clause names that
  class alone.
\<close>

lemma parse_raises_iff:
  "parse_tool_call_safely loads raw = Inl x \<longleftrightarrow>
     (\<exists>s. raw = PStr s \<and> strip s \<noteq> [] \<and> loads (strip s) = Inl x
          \<and> (\<forall>m. x \<noteq> JSONDecodeError m))"
proof (cases raw)
  case (PStr t)
  show ?thesis
  proof (cases "loads (strip t)")
    case (Inl y)
    with PStr show ?thesis
      by (cases y) (auto simp: parse_tool_call_safely_def Let_def)
  next
    case (Inr v)
    with PStr show ?thesis
      by (cases v) (auto simp: parse_tool_call_safely_def Let_def)
  qed
qed (simp_all add: parse_tool_call_safely_def)

lemma strip_replicate:
  assumes "\<not> is_space c"
  shows "strip (replicate n c) = replicate n c"
proof -
  have d: "dropWhile is_space (replicate n c) = replicate n c"
    using assms by (cases n) simp_all
  show ?thesis
    by (simp only: strip_def d rev_replicate)
qed

text \<open>
  Claim C7. The claim asks that \<^verbatim>\<open>parse_tool_call_safely\<close> returns a pair for every
  input and never raises, and the docstring of the function that it keeps JSON parse
  errors from crashing the pipeline. The code does not: on the string of 100000 opening
  brackets, which is no valid JSON, the \<^verbatim>\<open>RecursionError\<close> of the decoder leaves the
  function, and on the integer of 5000 digits its \<^verbatim>\<open>ValueError\<close>; the exception also
  leaves \<^verbatim>\<open>_handle_create_appointment\<close>, which has no \<^verbatim>\<open>try\<close> around the call.
\<close>

theorem C7_decoder_error_escapes_parse:
  "parse_tool_call_safely limited_loads (PStr deep_nesting) =
     Inl (RecursionError
        ''maximum recursion depth exceeded while decoding a JSON array from a unicode string'')
   \<and> parse_tool_call_safely limited_loads (PStr long_number) =
     Inl (ValueError (''Exceeds the limit (4300 digits) for integer string conversion: ''
        @ ''value has 5000 digits; use sys.set_int_max_str_digits() to increase the limit''))
   \<and> fst (handle_create_appointment limited_loads fromisoformat_core ok_env (PStr deep_nesting)
        None None example_service) =
     Inl (RecursionError
        ''maximum recursion depth exceeded while decoding a JSON array from a unicode string'')"
proof -
  have s: "strip deep_nesting = deep_nesting" "strip long_number = long_number"
    by (simp_all add: deep_nesting_def long_number_def strip_replicate is_space_def)
  have n: "deep_nesting \<noteq> []" "long_number \<noteq> []" "long_number \<noteq> deep_nesting"
    by (simp_all add: deep_nesting_def long_number_def)
  show ?thesis
    using s n
    by (simp add: parse_tool_call_safely_def limited_loads_def handle_create_appointment_def)
qed




section \<open>Properties of validation\<close>







subsection \<open>The schema\<close>

text \<open>The integer of a float and the \<^verbatim>\<open>bool\<close> field, on examples.\<close>

lemma float_as_int_examples:
  "float_as_int ''1.0'' = Some 1"
  "float_as_int ''-0.0'' = Some 0"
  "float_as_int ''-1.0'' = Some (- 1)"
  "float_as_int ''2.5'' = None"
  "float_as_int ''1.5e-07'' = None"
  "float_as_int ''1e+16'' = Some 10000000000000000"
  "float_as_int ''9.223372036854775e+18'' = Some 9223372036854775000"
  "float_as_int ''9.223372036854776e+18'' = None"
  "float_as_int ''1e+22'' = None"
  "float_as_int ''nan'' = None"
  "float_as_int ''-inf'' = None"
  by (simp_all add: float_as_int_def exponent_def number_def digit_def Let_def)

lemma bool_field_examples:
  "bool_field ''send_email'' (PBool True) = Inr True"
  "bool_field ''send_email'' (PStr ''Yes'') = Inr True"
  "bool_field ''send_email'' (PInt 0) = Inr False"
  "bool_field ''send_email'' (PFloat ''1.0'') = Inr True"
  "bool_field ''send_email'' (PInt 2) =
     Inl [(''send_email'', ''Input should be a valid boolean, unable to interpret input'')]"
  "bool_field ''send_email'' (PFloat ''2.0'') =
     Inl [(''send_email'', ''Input should be a valid boolean, unable to interpret input'')]"
  "bool_field ''send_email'' (PFloat ''2.5'') =
     Inl [(''send_email'', ''Input should be a valid boolean'')]"
  "bool_field ''send_email'' (PInt 18446744073709551616) =
     Inl [(''send_email'', ''Input should be a valid boolean'')]"
  "bool_field ''send_email'' PNone = Inl [(''send_email'', ''Input should be a valid boolean'')]"
  by (simp_all add: bool_field_def int_as_bool_def float_as_int_def exponent_def number_def
      digit_def Let_def lower_def lower_char_def upper_letters_def lower_letters_def)

lemma both_Inr: "both x y = Inr p \<longleftrightarrow> x = Inr (fst p) \<and> y = Inr (snd p)"
  by (cases x; cases y; cases p) (auto simp: both_def)



lemma field_errors_Inl [simp]: "field_errors (Inl es) = es"
  by (simp add: field_errors_def)

lemma normalized_data_get:
  "dict_get (normalized_data d iid cid oid) ''action'' = PStr ''create_calendar_event''"
  "dict_get (normalized_data d iid cid oid) ''title'' = dict_get_default d ''title'' (PStr [])"
  "dict_get (normalized_data d iid cid oid) ''description'' =
     dict_get_default d ''description'' (PStr [])"
  "dict_get (normalized_data d iid cid oid) ''start_time'' =
     dict_get_default d ''start_time'' (PStr [])"
  "dict_get (normalized_data d iid cid oid) ''end_time'' =
     dict_get_default d ''end_time'' (PStr [])"
  "dict_get (normalized_data d iid cid oid) ''timezone'' =
     dict_get_default d ''timezone'' (PStr ''UTC'')"
  "dict_get (normalized_data d iid cid oid) ''attendees'' = chosen_attendees d"
  "dict_get (normalized_data d iid cid oid) ''send_email'' =
     dict_get_default d ''send_email'' (PBool True)"
  "dict_get (normalized_data d iid cid oid) ''intent_id'' = iid"
  "dict_get (normalized_data d iid cid oid) ''call_id'' = opt_str cid"
  "dict_get (normalized_data d iid cid oid) ''org_id'' = opt_str oid"
  by (simp_all add: normalized_data_def dict_get_def)

lemma init_Inr:
  assumes "CalendarEventIntent_init fromisoformat data = Inr i"
  shows "title_field (dict_get data ''title'') = Inr (title i)"
    and "time_field fromisoformat ''start_time'' (dict_get data ''start_time'') = Inr (start_time i)"
    and "time_field fromisoformat ''end_time'' (dict_get data ''end_time'') = Inr (end_time i)"
    and "attendees_field (dict_get data ''attendees'') = Inr (attendees i)"
    and "optional_str_field ''intent_id'' (dict_get data ''intent_id'') = Inr (intent_id i)"
  using assms
  by (auto simp: CalendarEventIntent_init_def both_Inr split: sum.splits)



lemma required_present:
  assumes "missing_fields d = []" and "f \<in> set required_fields"
  shows "map_of d f \<noteq> None \<and> truthy (dict_get d f) \<and> dict_get_default d f x = dict_get d f"
proof -
  from assms have "\<not> (map_of d f = None \<or> \<not> truthy (dict_get d f))"
    by (auto simp: missing_fields_def filter_empty_conv)
  then show ?thesis
    by (auto simp: dict_get_def dict_get_default_def)
qed

lemma validate_schema:
  assumes "missing_fields d = []" and "idempotency_key d = Inr key"
  shows "validate_calendar_intent fromisoformat d cid oid =
     (case CalendarEventIntent_init fromisoformat (normalized_data d (choose_intent_id d key) cid oid) of
        Inr i \<Rightarrow> Inr \<lparr>is_valid = True, intent = Some i, errors = [], raw_input = d\<rparr>
      | Inl es \<Rightarrow>
          Inr \<lparr>is_valid = False, intent = None,
               errors = map (\<lambda>(field, msg). field @ '': '' @ msg) es, raw_input = d\<rparr>)"
  using assms by (simp add: validate_calendar_intent_def)



lemmas iso_defs = fromisoformat_core_def parse_isoformat_date_def number_def digit_def
  parse_isoformat_time_def parse_hh_mm_ss_ff_def two_digits_def is_sign_def parse_fraction_def
  new_datetime_def days_in_month_def replace_char_def

lemmas email_defs = validate_attendees_def lower_def strip_def is_space_def lower_char_def
  upper_letters_def lower_letters_def email_regex_def alpha_def

lemma naive_times:
  "fromisoformat_core ''2024-12-20T14:00:00'' =
     Some \<lparr>year = 2024, month = 12, day = 20, hour = 14, minute = 0, second = 0,
           microsecond = 0, utcoffset = None\<rparr>"
  "fromisoformat_core ''2024-12-20T15:00:00'' =
     Some \<lparr>year = 2024, month = 12, day = 20, hour = 15, minute = 0, second = 0,
           microsecond = 0, utcoffset = None\<rparr>"
  by (simp_all add: iso_defs)

lemma example_times:
  "fromisoformat_core ''2024-12-20T14:00:00+00:00'' =
     Some \<lparr>year = 2024, month = 12, day = 20, hour = 14, minute = 0, second = 0,
           microsecond = 0, utcoffset = Some 0\<rparr>"
  "fromisoformat_core ''2024-12-20T15:00:00+00:00'' =
     Some \<lparr>year = 2024, month = 12, day = 20, hour = 15, minute = 0, second = 0,
           microsecond = 0, utcoffset = Some 0\<rparr>"
  by (simp_all add: iso_defs)


lemma replace_examples:
  "replace_char CHR ''Z'' ''+00:00'' ''2024-12-20T14:00:00'' = ''2024-12-20T14:00:00''"
  "replace_char CHR ''Z'' ''+00:00'' ''2024-12-20T15:00:00'' = ''2024-12-20T15:00:00''"
  "replace_char CHR ''Z'' ''+00:00'' ''2024-12-20T14:00:00Z'' = ''2024-12-20T14:00:00+00:00''"
  "replace_char CHR ''Z'' ''+00:00'' ''2024-12-20T15:00:00Z'' = ''2024-12-20T15:00:00+00:00''"
  "replace_char CHR ''Z'' ''+00:00'' ''tomorrow at 2pm'' = ''tomorrow at 2pm''"
  by (simp_all add: replace_char_def)

lemma email_examples:
  "check_emails [''john@example.com''] = Inr [''john@example.com'']"
  "check_emails [''JOHN@Example.com''] = Inr [''john@example.com'']"
  by (simp_all add: email_defs)

lemma opt_str_field [simp]:
  "optional_str_field loc (opt_str x) = Inr x"
  by (cases x) (simp_all add: optional_str_field_def opt_str_def)

lemma optional_str_field_PStr [simp]:
  "optional_str_field loc (PStr x) = Inr (Some x)"
  by (simp add: optional_str_field_def)

lemma time_field_valid:
  "validate_iso8601 fromisoformat v = Inr v \<Longrightarrow> time_field fromisoformat loc (PStr v) = Inr v"
  by (simp add: time_field_def str_field_def)

lemma title_field_valid:
  "t \<noteq> [] \<Longrightarrow> length t \<le> 255 \<Longrightarrow> title_field (PStr t) = Inr t"
  by (cases t) (simp_all add: title_field_def str_field_def)

lemma attendees_field_valid:
  assumes "check_emails (x # xs) = Inr l"
  shows "attendees_field (PList (PStr x # map PStr xs)) = Inr l"
proof -
  have ie: "item_errors n (map PStr ys) = []" for n ys
    by (induction ys arbitrary: n) simp_all
  have ts: "map the_str (map PStr ys) = ys" for ys
    by (induction ys) (simp_all add: the_str_def)
  show ?thesis
    using assms ie [of 0 "x # xs"] ts [of "x # xs"]
    by (simp add: attendees_field_def validate_attendees_def del: check_emails.simps)
qed

lemma single_attendee_valid:
  assumes "t \<noteq> []" and "length t \<le> 255" and "s \<noteq> []" and "e \<noteq> []" and "a \<noteq> []"
      and "validate_iso8601 fromisoformat s = Inr s" and "validate_iso8601 fromisoformat e = Inr e"
      and "check_emails [a] = Inr [a']"
  shows "validate_calendar_intent
           fromisoformat [(''title'', PStr t), (''start_time'', PStr s), (''end_time'', PStr e),
            (''attendee_email'', PStr a)] cid oid =
         Inr \<lparr>is_valid = True,
              intent = Some \<lparr>action = ''create_calendar_event'', title = t,
                 description = Some [], start_time = s, end_time = e, timezone = ''UTC'',
                 attendees = [a'], send_email = True,
                 intent_id = Some (intent_digest (t @ ''|'' @ s @ ''|'' @ e @ ''|'' @ a)),
                 call_id = cid, org_id = oid\<rparr>,
              errors = [],
              raw_input = [(''title'', PStr t), (''start_time'', PStr s), (''end_time'', PStr e),
                           (''attendee_email'', PStr a)]\<rparr>"
proof -
  let ?d = "[(''title'', PStr t), (''start_time'', PStr s), (''end_time'', PStr e),
            (''attendee_email'', PStr a)]"
  let ?key = "t @ ''|'' @ s @ ''|'' @ e @ ''|'' @ a"
  have m: "missing_fields ?d = []"
    using assms(1,3,4,5) by (simp add: missing_fields_def required_fields_def dict_get_def)
  have c: "chosen_attendees ?d = PList [PStr a]"
    using assms(5) by (simp add: chosen_attendees_def dict_get_def dict_get_default_def)
  have k: "idempotency_key ?d = Inr ?key"
    by (simp add: idempotency_key_def c subscript0_def py_str_def dict_get_def)
  have i: "choose_intent_id ?d k' = PStr (intent_digest k')" for k'
    by (simp add: choose_intent_id_def dict_get_def)
  have "CalendarEventIntent_init fromisoformat (normalized_data ?d (PStr (intent_digest ?key)) cid oid) =
      Inr \<lparr>action = ''create_calendar_event'', title = t,
                 description = Some [], start_time = s, end_time = e, timezone = ''UTC'',
                 attendees = [a'], send_email = True,
                 intent_id = Some (intent_digest ?key),
                 call_id = cid, org_id = oid\<rparr>"
    using assms(1-7) attendees_field_valid [of a "[]" "[a']"] assms(8)
    by (simp add: CalendarEventIntent_init_def normalized_data_get c both_def
        action_field_def validate_action_def str_field_def title_field_valid
        time_field_valid bool_field_def dict_get_default_def
        del: check_emails.simps)
  then show ?thesis
    by (simp add: validate_schema [OF m k] i)
qed

lemma attendee_list_valid:
  assumes "t \<noteq> []" and "length t \<le> 255" and "s \<noteq> []" and "e \<noteq> []" and "a \<noteq> []"
      and "validate_iso8601 fromisoformat s = Inr s" and "validate_iso8601 fromisoformat e = Inr e"
      and "check_emails (x # xs) = Inr l"
  shows "validate_calendar_intent
           fromisoformat [(''title'', PStr t), (''start_time'', PStr s), (''end_time'', PStr e),
            (''attendee_email'', PStr a), (''attendees'', PList (PStr x # map PStr xs))] cid oid =
         Inr \<lparr>is_valid = True,
              intent = Some \<lparr>action = ''create_calendar_event'', title = t,
                 description = Some [], start_time = s, end_time = e, timezone = ''UTC'',
                 attendees = l, send_email = True,
                 intent_id = Some (intent_digest (t @ ''|'' @ s @ ''|'' @ e @ ''|'' @ x)),
                 call_id = cid, org_id = oid\<rparr>,
              errors = [],
              raw_input = [(''title'', PStr t), (''start_time'', PStr s), (''end_time'', PStr e),
                 (''attendee_email'', PStr a), (''attendees'', PList (PStr x # map PStr xs))]\<rparr>"
proof -
  let ?d = "[(''title'', PStr t), (''start_time'', PStr s), (''end_time'', PStr e),
            (''attendee_email'', PStr a), (''attendees'', PList (PStr x # map PStr xs))]"
  let ?key = "t @ ''|'' @ s @ ''|'' @ e @ ''|'' @ x"
  have m: "missing_fields ?d = []"
    using assms(1,3,4,5) by (simp add: missing_fields_def required_fields_def dict_get_def)
  have c: "chosen_attendees ?d = PList (PStr x # map PStr xs)"
    by (simp add: chosen_attendees_def dict_get_def dict_get_default_def)
  have k: "idempotency_key ?d = Inr ?key"
    using c by (simp add: idempotency_key_def subscript0_def py_str_def dict_get_def)
  have i: "choose_intent_id ?d k' = PStr (intent_digest k')" for k'
    by (simp add: choose_intent_id_def dict_get_def)
  note af = attendees_field_valid [OF assms(8)]
  have "CalendarEventIntent_init fromisoformat (normalized_data ?d (PStr (intent_digest ?key)) cid oid) =
      Inr \<lparr>action = ''create_calendar_event'', title = t,
                 description = Some [], start_time = s, end_time = e, timezone = ''UTC'',
                 attendees = l, send_email = True,
                 intent_id = Some (intent_digest ?key),
                 call_id = cid, org_id = oid\<rparr>"
    using assms(1-7) af c
    by (simp add: CalendarEventIntent_init_def normalized_data_get both_def
        action_field_def validate_action_def str_field_def title_field_valid
        time_field_valid bool_field_def dict_get_default_def
        del: check_emails.simps)
  then show ?thesis
    by (simp add: validate_schema [OF m k] i)
qed

lemma iso_examples:
  "validate_iso8601 fromisoformat_core ''2024-12-20T14:00:00'' = Inr ''2024-12-20T14:00:00''"
  "validate_iso8601 fromisoformat_core ''2024-12-20T15:00:00'' = Inr ''2024-12-20T15:00:00''"
  "validate_iso8601 fromisoformat_core ''2024-12-20T14:00:00Z'' = Inr ''2024-12-20T14:00:00Z''"
  "validate_iso8601 fromisoformat_core ''2024-12-20T15:00:00Z'' = Inr ''2024-12-20T15:00:00Z''"
  by (simp_all add: validate_iso8601_def replace_examples naive_times example_times)




subsection \<open>Attendees and identity\<close>

lemma item_errors_none:
  "item_errors n ys = [] \<Longrightarrow> \<exists>xs. ys = map PStr xs"
proof (induction ys arbitrary: n)
  case Nil
  then show ?case by simp
next
  case (Cons y ys)
  from Cons.prems obtain s where y: "y = PStr s" and r: "item_errors (Suc n) ys = []"
    by (cases y) auto
  from Cons.IH [OF r] obtain xs where "ys = map PStr xs" by blast
  with y have "y # ys = map PStr (s # xs)" by simp
  then show ?case by (rule exI)
qed

lemma check_emails_normalises:
  "check_emails xs = Inr l \<Longrightarrow> l = map (\<lambda>a. lower (strip a)) xs"
proof (induction xs arbitrary: l)
  case Nil
  then show ?case by simp
next
  case (Cons x xs)
  then show ?case
    by (auto simp: Let_def split: if_splits sum.splits)
qed

lemma attendees_field_Inr:
  assumes "attendees_field v = Inr l"
  shows "\<exists>xs. v = PList (map PStr xs) \<and> xs \<noteq> [] \<and> l = map (\<lambda>a. lower (strip a)) xs"
proof (cases v)
  case (PList ys)
  with assms have ie: "item_errors 0 ys = []" and ne: "ys \<noteq> []"
    and va: "validate_attendees (map the_str ys) = Inr l"
    by (auto simp: attendees_field_def split: if_splits sum.splits)
  from item_errors_none [OF ie] obtain xs where xs: "ys = map PStr xs" by blast
  have "map the_str (map PStr xs) = xs"
    by (induction xs) (simp_all add: the_str_def)
  with va xs ne have "check_emails xs = Inr l"
    by (simp add: validate_attendees_def split: if_splits)
  from check_emails_normalises [OF this] xs ne PList show ?thesis
    by auto
qed (use assms in \<open>simp_all add: attendees_field_def\<close>)

lemma validate_intent:
  assumes "validate_calendar_intent fromisoformat d cid oid = Inr r" and "intent r = Some i"
  shows "missing_fields d = []
         \<and> (\<exists>key. idempotency_key d = Inr key
               \<and> CalendarEventIntent_init fromisoformat (normalized_data d (choose_intent_id d key) cid oid)
                   = Inr i)"
  using assms
  by (auto simp: validate_calendar_intent_def split: if_splits sum.splits)



lemma more_emails:
  "check_emails [''john@example.com'', '' Jane@Example.com ''] =
     Inr [''john@example.com'', ''jane@example.com'']"
  by (simp add: email_defs)

lemma both_formats_valid:
  "validate_calendar_intent fromisoformat_core both_formats_args None None =
     Inr \<lparr>is_valid = True,
          intent = Some \<lparr>action = ''create_calendar_event'', title = ''Consult'',
             description = Some [], start_time = ''2024-12-20T14:00:00Z'',
             end_time = ''2024-12-20T15:00:00Z'', timezone = ''UTC'',
             attendees = [''john@example.com'', ''jane@example.com''], send_email = True,
             intent_id = Some (intent_digest
               ''Consult|2024-12-20T14:00:00Z|2024-12-20T15:00:00Z|john@example.com''),
             call_id = None, org_id = None\<rparr>,
          errors = [], raw_input = both_formats_args\<rparr>"
  using attendee_list_valid [where fromisoformat = fromisoformat_core, of "''Consult''" "''2024-12-20T14:00:00Z''"
      "''2024-12-20T15:00:00Z''" "''john@example.com''" "''john@example.com''"
      "['' Jane@Example.com '']" "[''john@example.com'', ''jane@example.com'']" None None]
  by (simp add: both_formats_args_def iso_examples more_emails del: check_emails.simps)

lemma lower_case_valid:
  "validate_calendar_intent fromisoformat_core lower_case_args None None =
     Inr \<lparr>is_valid = True,
          intent = Some \<lparr>action = ''create_calendar_event'', title = ''Consult'',
             description = Some [], start_time = ''2024-12-20T14:00:00Z'',
             end_time = ''2024-12-20T15:00:00Z'', timezone = ''UTC'',
             attendees = [''john@example.com''], send_email = True,
             intent_id = Some (intent_digest
               ''Consult|2024-12-20T14:00:00Z|2024-12-20T15:00:00Z|john@example.com''),
             call_id = None, org_id = None\<rparr>,
          errors = [], raw_input = lower_case_args\<rparr>"
  using single_attendee_valid [where fromisoformat = fromisoformat_core, of "''Consult''" "''2024-12-20T14:00:00Z''"
      "''2024-12-20T15:00:00Z''" "''john@example.com''" "''john@example.com''" None None]
  by (simp add: lower_case_args_def iso_examples email_examples del: check_emails.simps)

lemma upper_case_valid:
  "validate_calendar_intent fromisoformat_core upper_case_args None None =
     Inr \<lparr>is_valid = True,
          intent = Some \<lparr>action = ''create_calendar_event'', title = ''Consult'',
             description = Some [], start_time = ''2024-12-20T14:00:00Z'',
             end_time = ''2024-12-20T15:00:00Z'', timezone = ''UTC'',
             attendees = [''john@example.com''], send_email = True,
             intent_id = Some (intent_digest
               ''Consult|2024-12-20T14:00:00Z|2024-12-20T15:00:00Z|JOHN@Example.com''),
             call_id = None, org_id = None\<rparr>,
          errors = [], raw_input = upper_case_args\<rparr>"
  using single_attendee_valid [where fromisoformat = fromisoformat_core, of "''Consult''" "''2024-12-20T14:00:00Z''"
      "''2024-12-20T15:00:00Z''" "''JOHN@Example.com''" "''john@example.com''" None None]
  by (simp add: upper_case_args_def iso_examples email_examples del: check_emails.simps)


lemma title_field_Inr: "title_field v = Inr t \<Longrightarrow> v = PStr t"
  by (cases v) (auto simp: title_field_def str_field_def split: if_splits)

lemma time_field_Inr: "time_field fromisoformat loc v = Inr t \<Longrightarrow> v = PStr t"
  by (cases v)
     (auto simp: time_field_def str_field_def validate_iso8601_def split: sum.splits option.splits)

lemma identity_of_valid:
  assumes "validate_calendar_intent fromisoformat d cid oid = Inr r" and "intent r = Some i"
      and "\<not> truthy (dict_get d ''intent_id'')"
  shows "\<exists>t s e a. dict_get d ''title'' = PStr t \<and> dict_get d ''start_time'' = PStr s
           \<and> dict_get d ''end_time'' = PStr e
           \<and> subscript0 (chosen_attendees d) = Inr (PStr a)
           \<and> title i = t \<and> start_time i = s \<and> end_time i = e
           \<and> hd (attendees i) = lower (strip a)
           \<and> intent_id i = Some (intent_digest (t @ ''|'' @ s @ ''|'' @ e @ ''|'' @ a))"
proof -
  from validate_intent [OF assms(1,2)] obtain key
    where m: "missing_fields d = []" and k: "idempotency_key d = Inr key"
      and init: "CalendarEventIntent_init fromisoformat (normalized_data d (choose_intent_id d key) cid oid) = Inr i"
    by blast
  have req: "dict_get_default d f x = dict_get d f" if "f \<in> set required_fields" for f x
    using required_present [OF m that] by simp
  have t: "dict_get d ''title'' = PStr (title i)"
    using title_field_Inr [OF init_Inr(1) [OF init]]
    by (simp add: normalized_data_get req required_fields_def)
  have s: "dict_get d ''start_time'' = PStr (start_time i)"
    using time_field_Inr [OF init_Inr(2) [OF init]]
    by (simp add: normalized_data_get req required_fields_def)
  have e: "dict_get d ''end_time'' = PStr (end_time i)"
    using time_field_Inr [OF init_Inr(3) [OF init]]
    by (simp add: normalized_data_get req required_fields_def)
  from init_Inr(4) [OF init]
  have "attendees_field (chosen_attendees d) = Inr (attendees i)"
    by (simp add: normalized_data_get)
  from attendees_field_Inr [OF this] obtain xs
    where xs: "chosen_attendees d = PList (map PStr xs)" "xs \<noteq> []"
      "attendees i = map (\<lambda>a. lower (strip a)) xs"
    by blast
  then obtain a rest where ar: "xs = a # rest"
    by (cases xs) auto
  have sub: "subscript0 (chosen_attendees d) = Inr (PStr a)"
    by (simp add: xs(1) ar subscript0_def)
  have key: "key = title i @ ''|'' @ start_time i @ ''|'' @ end_time i @ ''|'' @ a"
    using k by (simp add: idempotency_key_def xs(1) ar subscript0_def t s e py_str_def)
  have "choose_intent_id d key = PStr (intent_digest key)"
    using assms(3) by (simp add: choose_intent_id_def)
  with init_Inr(5) [OF init]
  have "intent_id i = Some (intent_digest key)"
    by (simp add: normalized_data_get)
  with t s e sub key xs(3) ar show ?thesis
    by simp
qed

text \<open>
  The identity the code computes: two payloads that validate, bring no \<^verbatim>\<open>intent_id\<close> of
  their own and have the same title, start time, end time and first attendee as given
  (the first element of the \<^verbatim>\<open>attendees\<close> list, or the \<^verbatim>\<open>attendee_email\<close> when there is
  no list) get the same identity, the digest of \<^verbatim>\<open>title|start|end|attendee\<close> over the
  values as they arrive.
\<close>

lemma identity_is_digest_of_raw_fields:
  assumes "validate_calendar_intent fromisoformat d1 c1 o1 = Inr r1" and "intent r1 = Some i1"
      and "validate_calendar_intent fromisoformat d2 c2 o2 = Inr r2" and "intent r2 = Some i2"
      and "\<not> truthy (dict_get d1 ''intent_id'')" and "\<not> truthy (dict_get d2 ''intent_id'')"
      and "dict_get d1 ''title'' = dict_get d2 ''title''"
      and "dict_get d1 ''start_time'' = dict_get d2 ''start_time''"
      and "dict_get d1 ''end_time'' = dict_get d2 ''end_time''"
      and "subscript0 (chosen_attendees d1) = subscript0 (chosen_attendees d2)"
  shows "intent_id i1 = intent_id i2
         \<and> (\<exists>t s e a. dict_get d1 ''title'' = PStr t \<and> dict_get d1 ''start_time'' = PStr s
               \<and> dict_get d1 ''end_time'' = PStr e
               \<and> subscript0 (chosen_attendees d1) = Inr (PStr a)
               \<and> intent_id i1 = Some (intent_digest (t @ ''|'' @ s @ ''|'' @ e @ ''|'' @ a)))"
proof -
  from identity_of_valid [OF assms(1,2,5)] obtain t s e a
    where 1: "dict_get d1 ''title'' = PStr t" "dict_get d1 ''start_time'' = PStr s"
      "dict_get d1 ''end_time'' = PStr e" "subscript0 (chosen_attendees d1) = Inr (PStr a)"
      "intent_id i1 = Some (intent_digest (t @ ''|'' @ s @ ''|'' @ e @ ''|'' @ a))"
    by blast
  from identity_of_valid [OF assms(3,4,6)] obtain t' s' e' a'
    where 2: "dict_get d2 ''title'' = PStr t'" "dict_get d2 ''start_time'' = PStr s'"
      "dict_get d2 ''end_time'' = PStr e'" "subscript0 (chosen_attendees d2) = Inr (PStr a')"
      "intent_id i2 = Some (intent_digest (t' @ ''|'' @ s' @ ''|'' @ e' @ ''|'' @ a'))"
    by blast
  from 1 2 assms(7-10) have eq: "t = t'" "s = s'" "e = e'" "a = a'"
    by simp_all
  have "intent_id i1 = intent_id i2"
    using 1(5) 2(5) eq by simp
  moreover have "\<exists>t s e a. dict_get d1 ''title'' = PStr t \<and> dict_get d1 ''start_time'' = PStr s
               \<and> dict_get d1 ''end_time'' = PStr e
               \<and> subscript0 (chosen_attendees d1) = Inr (PStr a)
               \<and> intent_id i1 = Some (intent_digest (t @ ''|'' @ s @ ''|'' @ e @ ''|'' @ a))"
    using 1 by (intro exI conjI)
  ultimately show ?thesis ..
qed

lemma replicate_numeral: "replicate (numeral k) x = x # replicate (pred_numeral k) x"
  by (simp add: numeral_eq_Suc)

lemmas sha_defs = intent_digest_def hexdigest_def sha256_def encode_def pad_def length_bytes_def
  chunks.simps be_word_def replicate_numeral compress_def hex_word_def H256_def K256_def
  add32_def shr_def rotr_def Ch_def Maj_def Sigma0_def Sigma1_def sigma0_def sigma1_def

lemma digest_upper_case:
  "intent_digest ''Consult|2024-12-20T14:00:00Z|2024-12-20T15:00:00Z|JOHN@Example.com'' =
     ''c51a71ae7851e497''"
  by (simp add: sha_defs)

lemma digest_lower_case:
  "intent_digest ''Consult|2024-12-20T14:00:00Z|2024-12-20T15:00:00Z|john@example.com'' =
     ''ec55823e2cb65a1d''"
  by (simp add: sha_defs)

text \<open>
  Claim C2. The claim asks for one identity for payloads whose normalized fields are
  the same, and the comment at the line that builds the key says the same
  (\<^verbatim>\<open>Same appointment details = same ID = duplicate prevention\<close>). The code takes the
  address for the key from the raw payload, before the validator of the attendees
  strips and lower-cases it: two payloads that differ only in the casing of the attendee
  address validate to intents that agree in every field but the identity, and their
  identities differ.
\<close>

theorem C2_casing_changes_identity:
  "is_valid (projr (validate_calendar_intent fromisoformat_core upper_case_args None None))
   \<and> is_valid (projr (validate_calendar_intent fromisoformat_core lower_case_args None None))
   \<and> the (intent (projr (validate_calendar_intent fromisoformat_core upper_case_args None None)))
        \<lparr>intent_id := None\<rparr> =
       the (intent (projr (validate_calendar_intent fromisoformat_core lower_case_args None None)))
        \<lparr>intent_id := None\<rparr>
   \<and> intent_id (the (intent (projr (validate_calendar_intent fromisoformat_core upper_case_args None None)))) =
       Some ''c51a71ae7851e497''
   \<and> intent_id (the (intent (projr (validate_calendar_intent fromisoformat_core lower_case_args None None)))) =
       Some ''ec55823e2cb65a1d''"
  by (simp add: upper_case_valid lower_case_valid digest_upper_case digest_lower_case)

text \<open>
  The payload with the single field and the payload that also has the list starting
  with the same address get the same identity.
\<close>

lemma single_field_and_list_same_identity:
  "is_valid (projr (validate_calendar_intent fromisoformat_core lower_case_args None None))
   \<and> is_valid (projr (validate_calendar_intent fromisoformat_core both_formats_args None None))
   \<and> intent_id (the (intent (projr (validate_calendar_intent fromisoformat_core lower_case_args None None)))) =
       intent_id (the (intent (projr (validate_calendar_intent fromisoformat_core both_formats_args None None))))
   \<and> intent_id (the (intent (projr (validate_calendar_intent fromisoformat_core both_formats_args None None)))) =
       Some (intent_digest
         ''Consult|2024-12-20T14:00:00Z|2024-12-20T15:00:00Z|john@example.com'')"
proof -
  have g: "\<not> truthy (dict_get lower_case_args ''intent_id'')"
    "\<not> truthy (dict_get both_formats_args ''intent_id'')"
    "dict_get lower_case_args ''title'' = dict_get both_formats_args ''title''"
    "dict_get lower_case_args ''start_time'' = dict_get both_formats_args ''start_time''"
    "dict_get lower_case_args ''end_time'' = dict_get both_formats_args ''end_time''"
    by (simp_all add: lower_case_args_def both_formats_args_def dict_get_def)
  have c: "subscript0 (chosen_attendees lower_case_args) =
           subscript0 (chosen_attendees both_formats_args)"
    by (simp add: lower_case_args_def both_formats_args_def chosen_attendees_def
        dict_get_def dict_get_default_def subscript0_def)
  have i1: "intent \<lparr>is_valid = True,
          intent = Some \<lparr>action = ''create_calendar_event'', title = ''Consult'',
             description = Some [], start_time = ''2024-12-20T14:00:00Z'',
             end_time = ''2024-12-20T15:00:00Z'', timezone = ''UTC'',
             attendees = [''john@example.com''], send_email = True,
             intent_id = Some (intent_digest
               ''Consult|2024-12-20T14:00:00Z|2024-12-20T15:00:00Z|john@example.com''),
             call_id = None, org_id = None\<rparr>,
          errors = [], raw_input = lower_case_args\<rparr> =
        Some \<lparr>action = ''create_calendar_event'', title = ''Consult'',
             description = Some [], start_time = ''2024-12-20T14:00:00Z'',
             end_time = ''2024-12-20T15:00:00Z'', timezone = ''UTC'',
             attendees = [''john@example.com''], send_email = True,
             intent_id = Some (intent_digest
               ''Consult|2024-12-20T14:00:00Z|2024-12-20T15:00:00Z|john@example.com''),
             call_id = None, org_id = None\<rparr>"
    by simp
  have i2: "intent \<lparr>is_valid = True,
          intent = Some \<lparr>action = ''create_calendar_event'', title = ''Consult'',
             description = Some [], start_time = ''2024-12-20T14:00:00Z'',
             end_time = ''2024-12-20T15:00:00Z'', timezone = ''UTC'',
             attendees = [''john@example.com'', ''jane@example.com''], send_email = True,
             intent_id = Some (intent_digest
               ''Consult|2024-12-20T14:00:00Z|2024-12-20T15:00:00Z|john@example.com''),
             call_id = None, org_id = None\<rparr>,
          errors = [], raw_input = both_formats_args\<rparr> =
        Some \<lparr>action = ''create_calendar_event'', title = ''Consult'',
             description = Some [], start_time = ''2024-12-20T14:00:00Z'',
             end_time = ''2024-12-20T15:00:00Z'', timezone = ''UTC'',
             attendees = [''john@example.com'', ''jane@example.com''], send_email = True,
             intent_id = Some (intent_digest
               ''Consult|2024-12-20T14:00:00Z|2024-12-20T15:00:00Z|john@example.com''),
             call_id = None, org_id = None\<rparr>"
    by simp
  show ?thesis
    using identity_is_digest_of_raw_fields
        [OF lower_case_valid i1 both_formats_valid i2 g c]
    by (simp add: lower_case_valid both_formats_valid)
qed

end
